theory Spec2Isabelle
  imports Main
begin

section \<open>JavaScript values\<close>

text \<open>
  The persisted document is JSON, so the values of the model are the JSON values, together
  with \<open>undefined\<close> and \<open>NaN\<close>, which arise at run time (a missing property, a failed
  \<open>parseInt\<close>). Numbers are integers: fractions and infinities are not represented, and
  \<open>-0\<close> is \<open>0\<close>. A number of the language is a double, which holds every integer up
  to \<open>2^53\<close> in magnitude and, beyond, only some; where the code adds, the sum is rounded
  as the double is (see \<open>plus_one\<close>). An object is a finite map
  from property names to values; the order of its keys, which only the JSON text shows, is
  not represented. Strings are ASCII.
\<close>

datatype jsval =
    JUndefined
  | JNull
  | JBool bool
  | JNum int
  | JNaN
  | JStr string
  | JArr "jsval list"
  | JObj "string \<Rightarrow> jsval option"

type_synonym jsobj = "string \<Rightarrow> jsval option"

text \<open>\<open>o.k\<close> on an object: the value of the property, \<open>undefined\<close> when it is absent.\<close>

definition js_get :: "jsobj \<Rightarrow> string \<Rightarrow> jsval" where
  "js_get r k = (case r k of None \<Rightarrow> JUndefined | Some v \<Rightarrow> v)"

text \<open>
  \<open>v.k\<close> on a value that is not \<open>null\<close> or \<open>undefined\<close>, for the data property names the
  services read (\<open>nombre\<close>, \<open>permisos\<close>): a primitive or an array has no such property.
\<close>

fun member :: "jsval \<Rightarrow> string \<Rightarrow> jsval" where
  "member (JObj r) k = js_get r k"
| "member _ k = JUndefined"

text \<open>Truthiness, as \<open>!v\<close>, \<open>v || w\<close>, \<open>v && w\<close> and \<open>if (v)\<close> read it.\<close>

fun truthy :: "jsval \<Rightarrow> bool" where
  "truthy JUndefined = False"
| "truthy JNull = False"
| "truthy (JBool b) = b"
| "truthy (JNum n) = (n \<noteq> 0)"
| "truthy JNaN = False"
| "truthy (JStr s) = (s \<noteq> [])"
| "truthy (JArr xs) = True"
| "truthy (JObj r) = True"

definition js_or :: "jsval \<Rightarrow> jsval \<Rightarrow> jsval" where
  "js_or a b = (if truthy a then a else b)"

definition js_and :: "jsval \<Rightarrow> jsval \<Rightarrow> jsval" where
  "js_and a b = (if truthy a then b else a)"

text \<open>
  Strict equality \<open>===\<close>. \<open>NaN\<close> equals nothing. Objects and arrays are equal only to
  themselves as references; in the code modelled the two operands of \<open>===\<close> never are the
  same reference (one side is a fresh number, a literal or a caller's argument), so two
  objects or arrays compare unequal.
\<close>

fun strict_eq :: "jsval \<Rightarrow> jsval \<Rightarrow> bool" where
  "strict_eq JUndefined JUndefined = True"
| "strict_eq JNull JNull = True"
| "strict_eq (JBool a) (JBool b) = (a = b)"
| "strict_eq (JNum a) (JNum b) = (a = b)"
| "strict_eq (JStr a) (JStr b) = (a = b)"
| "strict_eq _ _ = False"

subsection \<open>\<open>parseInt\<close> with one argument\<close>

definition is_space :: "char \<Rightarrow> bool" where
  "is_space c = (c \<in> set [CHR 0x09, CHR 0x0A, CHR 0x0B, CHR 0x0C, CHR 0x0D, CHR 0x20])"

definition digit_of :: "char \<Rightarrow> nat option" where
  "digit_of c =
     (let n = (of_char c :: nat)
      in if 48 \<le> n \<and> n \<le> 57 then Some (n - 48)
         else if 97 \<le> n \<and> n \<le> 122 then Some (n - 87)
         else if 65 \<le> n \<and> n \<le> 90 then Some (n - 55)
         else None)"

definition in_radix :: "nat \<Rightarrow> char \<Rightarrow> bool" where
  "in_radix R c = (case digit_of c of None \<Rightarrow> False | Some d \<Rightarrow> d < R)"

definition digits_value :: "nat \<Rightarrow> string \<Rightarrow> nat" where
  "digits_value R ds =
     foldl (\<lambda>acc c. acc * R + (case digit_of c of None \<Rightarrow> 0 | Some d \<Rightarrow> d)) 0 ds"

text \<open>
  The steps of the language definition: leading white space is dropped, a sign is read, a
  prefix \<open>0x\<close> or \<open>0X\<close> selects radix 16 (radix 10 otherwise), and the longest prefix of
  digits of the radix is the value; no digit gives \<open>NaN\<close>.
\<close>

definition parse_int_str :: "string \<Rightarrow> jsval" where
  "parse_int_str s =
     (let s1 = dropWhile is_space s;
          neg = (case s1 of [] \<Rightarrow> False | c # _ \<Rightarrow> c = CHR ''-'');
          s2 = (case s1 of [] \<Rightarrow> [] | c # cs \<Rightarrow> if c = CHR ''-'' \<or> c = CHR ''+'' then cs else s1);
          hex = (case s2 of a # b # _ \<Rightarrow> a = CHR ''0'' \<and> (b = CHR ''x'' \<or> b = CHR ''X'') | _ \<Rightarrow> False);
          R = (if hex then 16 else 10);
          s3 = (if hex then drop 2 s2 else s2);
          z = takeWhile (in_radix R) s3
      in if z = [] then JNaN
         else JNum ((if neg then - 1 else 1) * int (digits_value R z)))"

text \<open>
  \<open>parseInt(v)\<close> parses \<open>String(v)\<close>. An integer prints as its decimal digits, so it is
  parsed back unchanged. \<open>String\<close> of \<open>undefined\<close>, \<open>null\<close>, a boolean, \<open>NaN\<close> or an
  object (\<open>[object Object]\<close>) starts with no digit. \<open>String\<close> of an array joins the strings
  of its elements with commas, so that only the first element is read (a comma ends the
  digits, and \<open>null\<close> and \<open>undefined\<close> elements print as the empty string).
\<close>

fun parse_int :: "jsval \<Rightarrow> jsval" where
  "parse_int (JNum n) = JNum n"
| "parse_int (JStr s) = parse_int_str s"
| "parse_int (JArr (x # xs)) = parse_int x"
| "parse_int _ = JNaN"

subsection \<open>\<open>Math.max\<close> over the identifiers of a table\<close>

text \<open>
  \<open>Math.max\<close> converts every argument to a number: \<open>undefined\<close> is \<open>NaN\<close>, \<open>null\<close> is
  \<open>0\<close>, a boolean is \<open>0\<close> or \<open>1\<close>. The conversion of a string, an array or an object may
  give a fraction or an infinity, which the integers of this model do not hold: there
  \<open>to_number\<close> is \<open>None\<close>, the value lies outside the model.
\<close>

fun to_number :: "jsval \<Rightarrow> jsval option" where
  "to_number (JNum n) = Some (JNum n)"
| "to_number JNaN = Some JNaN"
| "to_number JUndefined = Some JNaN"
| "to_number JNull = Some (JNum 0)"
| "to_number (JBool b) = Some (JNum (if b then 1 else 0))"
| "to_number (JStr s) = None"
| "to_number (JArr xs) = None"
| "to_number (JObj r) = None"

text \<open>The greater of two numbers; \<open>NaN\<close> if either is \<open>NaN\<close>.\<close>

fun max_num :: "jsval \<Rightarrow> jsval \<Rightarrow> jsval" where
  "max_num (JNum a) (JNum b) = JNum (max a b)"
| "max_num _ _ = JNaN"

text \<open>\<open>Math.max(...vs)\<close> for a non-empty \<open>vs\<close> (the code calls it on no other).\<close>

fun math_max :: "jsval list \<Rightarrow> jsval option" where
  "math_max [] = None"
| "math_max [v] = to_number v"
| "math_max (v # w # vs) =
     (case to_number v of
        None \<Rightarrow> None
      | Some a \<Rightarrow> (case math_max (w # vs) of None \<Rightarrow> None | Some b \<Rightarrow> Some (max_num a b)))"

text \<open>
  The integer that the double nearest to an integer \<open>m\<close> holds. A double has 53 significant
  bits: an integer of more bits is rounded at the bit where the 53 end, to the nearest
  multiple of that bit's weight \<open>s\<close>, and half way to the multiple whose quotient by \<open>s\<close>
  is even. \<open>bits a\<close> is the number of bits of \<open>a\<close>.
\<close>

function bits :: "int \<Rightarrow> nat" where
  "bits a = (if a \<le> 0 then 0 else Suc (bits (a div 2)))"
  by pat_completeness auto
termination
  by (relation "measure nat") auto

declare bits.simps [simp del]

definition to_double :: "int \<Rightarrow> int" where
  "to_double m =
     (let a = \<bar>m\<bar>;
          s = 2 ^ (bits a - 53);
          q = a div s;
          r = a mod s;
          v = (if s < 2 * r \<or> (2 * r = s \<and> odd q) then (q + 1) * s else q * s)
      in if m < 0 then - v else v)"

text \<open>
  \<open>n + 1\<close> on a number: the sum as the double holds it. Up to \<open>2^53\<close> in magnitude the
  sum is exact; from there on it is rounded, so that \<open>2^53 + 1\<close> is \<open>2^53\<close> again.
\<close>

fun plus_one :: "jsval \<Rightarrow> jsval" where
  "plus_one (JNum n) = JNum (if \<bar>n + 1\<bar> \<le> 2 ^ 53 then n + 1 else to_double (n + 1))"
| "plus_one _ = JNaN"

section \<open>The record store (\<open>DatabaseService\<close>)\<close>

text \<open>
  The state of the service is the resident document \<open>this.data\<close>: an object whose
  properties are the tables, each an array of records (a table name is one of the
  document's own property names or names nothing; the names every object inherits, such
  as \<open>constructor\<close>, are not modelled). Reading and writing the file are
  assumed to succeed, and every operation below starts from a loaded document; an
  operation that mutates returns the document it leaves behind, which is also the one it
  writes. The errors are the \<open>Error\<close>s the code throws, one constructor per kind of
  message (the text of a missing-fields message is left out), with the \<open>TypeError\<close> of
  the language, an error thrown by a library, and the mark of a value outside the model.
\<close>

type_synonym db = "string \<Rightarrow> jsobj list option"

datatype error =
    TablaNoExiste string
  | RegistroNoEncontrado jsval string
  | UsuarioNoEncontrado jsval
  | CamposRequeridos
  | ErrorDeTipo
  | ErrorDeBiblioteca
  | FueraDelModelo

text \<open>\<open>item => item.id === parseInt(id)\<close>\<close>

definition mismo_id :: "jsval \<Rightarrow> jsobj \<Rightarrow> bool" where
  "mismo_id i item = strict_eq (js_get item ''id'') (parse_int i)"

text \<open>\<open>Array.prototype.findIndex\<close>; \<open>None\<close> stands for \<open>-1\<close>.\<close>

fun findIndex :: "('a \<Rightarrow> bool) \<Rightarrow> 'a list \<Rightarrow> nat option" where
  "findIndex P [] = None"
| "findIndex P (x # xs) = (if P x then Some 0 else map_option Suc (findIndex P xs))"

definition getAll :: "db \<Rightarrow> string \<Rightarrow> error + jsobj list" where
  "getAll d tableName =
     (case d tableName of
        None \<Rightarrow> Inl (TablaNoExiste tableName)
      | Some rows \<Rightarrow> Inr rows)"

definition getById :: "db \<Rightarrow> string \<Rightarrow> jsval \<Rightarrow> error + jsobj" where
  "getById d tableName i =
     (case d tableName of
        None \<Rightarrow> Inl (TablaNoExiste tableName)
      | Some rows \<Rightarrow>
          (case find (mismo_id i) rows of
             None \<Rightarrow> Inl (RegistroNoEncontrado i tableName)
           | Some record \<Rightarrow> Inr record))"

text \<open>\<open>maxId\<close> of \<open>create\<close>: \<open>0\<close> for an empty table, else \<open>Math.max\<close> of the ids.\<close>

definition maxId :: "jsobj list \<Rightarrow> jsval option" where
  "maxId rows =
     (if length rows > 0 then math_max (map (\<lambda>item. js_get item ''id'') rows)
      else Some (JNum 0))"

text \<open>
  \<open>{ id: maxId + 1, ...newRecord }\<close>: the properties of \<open>newRecord\<close> are copied over the
  generated \<open>id\<close>.
\<close>

definition create :: "db \<Rightarrow> string \<Rightarrow> jsobj \<Rightarrow> error + (jsobj \<times> db)" where
  "create d tableName newRecord =
     (case d tableName of
        None \<Rightarrow> Inl (TablaNoExiste tableName)
      | Some rows \<Rightarrow>
          (case maxId rows of
             None \<Rightarrow> Inl FueraDelModelo
           | Some m \<Rightarrow>
               (let recordWithId = [''id'' \<mapsto> plus_one m] ++ newRecord
                in Inr (recordWithId, d(tableName \<mapsto> rows @ [recordWithId])))))"

text \<open>
  \<open>{ ...this.data[tableName][index], ...updatedData, id: parseInt(id) }\<close>, stored at the
  index found.
\<close>

definition update :: "db \<Rightarrow> string \<Rightarrow> jsval \<Rightarrow> jsobj \<Rightarrow> error + (jsobj \<times> db)" where
  "update d tableName i updatedData =
     (case d tableName of
        None \<Rightarrow> Inl (TablaNoExiste tableName)
      | Some rows \<Rightarrow>
          (case findIndex (mismo_id i) rows of
             None \<Rightarrow> Inl (RegistroNoEncontrado i tableName)
           | Some index \<Rightarrow>
               (let updated = (rows ! index ++ updatedData)(''id'' \<mapsto> parse_int i)
                in Inr (updated, d(tableName \<mapsto> rows[index := updated])))))"

text \<open>\<open>splice(index, 1)[0]\<close>: the record at the index is removed and returned.\<close>

definition delete :: "db \<Rightarrow> string \<Rightarrow> jsval \<Rightarrow> error + (jsobj \<times> db)" where
  "delete d tableName i =
     (case d tableName of
        None \<Rightarrow> Inl (TablaNoExiste tableName)
      | Some rows \<Rightarrow>
          (case findIndex (mismo_id i) rows of
             None \<Rightarrow> Inl (RegistroNoEncontrado i tableName)
           | Some index \<Rightarrow>
               Inr (rows ! index, d(tableName \<mapsto> take index rows @ drop (Suc index) rows))))"

subsection \<open>Accessors by entity\<close>

definition getRoleById :: "db \<Rightarrow> jsval \<Rightarrow> error + jsobj" where
  "getRoleById d i = getById d ''roles'' i"

definition getUsuarioById :: "db \<Rightarrow> jsval \<Rightarrow> error + jsobj" where
  "getUsuarioById d i = getById d ''usuarios'' i"

definition getPerfilById :: "db \<Rightarrow> jsval \<Rightarrow> error + jsobj" where
  "getPerfilById d i = getById d ''perfiles'' i"

definition getEmpleadoById :: "db \<Rightarrow> jsval \<Rightarrow> error + jsobj" where
  "getEmpleadoById d i = getById d ''empleados'' i"

definition getPacienteById :: "db \<Rightarrow> jsval \<Rightarrow> error + jsobj" where
  "getPacienteById d i = getById d ''pacientes'' i"

definition getAllTareas :: "db \<Rightarrow> error + jsobj list" where
  "getAllTareas d = getAll d ''tareas''"

text \<open>
  \<open>this.data.usuarios.find(u => u.usuario === usuario)\<close>; without the table the call of
  \<open>find\<close> on \<open>undefined\<close> is a \<open>TypeError\<close>.
\<close>

definition getUsuarioByUsername :: "db \<Rightarrow> jsval \<Rightarrow> error + jsobj" where
  "getUsuarioByUsername d usuario =
     (case d ''usuarios'' of
        None \<Rightarrow> Inl ErrorDeTipo
      | Some rows \<Rightarrow>
          (case find (\<lambda>u. strict_eq (js_get u ''usuario'') usuario) rows of
             None \<Rightarrow> Inl (UsuarioNoEncontrado usuario)
           | Some user \<Rightarrow> Inr user))"

subsection \<open>The libraries\<close>

text \<open>
  \<open>bcrypt\<close> and \<open>jsonwebtoken\<close> are not code of the repository: the model takes their
  functions as parameters. \<open>None\<close> is a call that throws or rejects (for
  \<open>jwt.verify\<close> the error is kept). The salt that
  \<open>bcrypt.hash\<close> draws and the clock that \<open>jwt.verify\<close> reads are part of the parameter:
  it stands for the library at the moment of the call.
  \<^item> \<open>bcrypt_hash data saltRounds\<close> is \<open>bcrypt.hash(data, saltRounds)\<close>;
  \<^item> \<open>bcrypt_compare data encrypted\<close> is \<open>bcrypt.compare(data, encrypted)\<close>;
  \<^item> \<open>jwt_sign payload secret expiresIn issuer i\<close> is
    \<open>jwt.sign(payload, secret, {expiresIn, issuer, subject: i.toString()})\<close>;
  \<^item> \<open>jwt_verify token secret\<close> is \<open>jwt.verify(token, secret)\<close>: the decoded payload
    object, or the error thrown, which is one of the three error classes of the library
    (an expired token, a token not yet valid, and every other defect, a bad signature
    among them).
\<close>

datatype jwt_error = TokenExpiredError | NotBeforeError | JsonWebTokenError

record libs =
  bcrypt_hash :: "jsval \<Rightarrow> nat \<Rightarrow> string option"
  bcrypt_compare :: "jsval \<Rightarrow> jsval \<Rightarrow> bool option"
  jwt_sign :: "jsobj \<Rightarrow> string \<Rightarrow> string \<Rightarrow> string \<Rightarrow> jsval \<Rightarrow> string option"
  jwt_verify :: "string \<Rightarrow> string \<Rightarrow> jwt_error + jsobj"

subsection \<open>Users and tasks\<close>

definition createUsuario :: "libs \<Rightarrow> db \<Rightarrow> jsobj \<Rightarrow> error + (jsobj \<times> db)" where
  "createUsuario L d userData =
     (let usuario = js_get userData ''usuario'';
          password = js_get userData ''password'';
          rolId = js_get userData ''rolId'';
          perfilId = js_get userData ''perfilId'';
          tipoPerfilId = js_get userData ''tipoPerfilId''
      in if \<not> truthy usuario \<or> \<not> truthy password \<or> \<not> truthy rolId \<or> \<not> truthy perfilId
         then Inl CamposRequeridos
         else
           (case bcrypt_hash L password 10 of
              None \<Rightarrow> Inl ErrorDeBiblioteca
            | Some hashedPassword \<Rightarrow>
                (let usuarioData = [''usuario'' \<mapsto> usuario, ''password'' \<mapsto> JStr hashedPassword,
                                    ''rolId'' \<mapsto> rolId, ''perfilId'' \<mapsto> perfilId]
                 in create d ''usuarios''
                      (if truthy tipoPerfilId then usuarioData(''tipoPerfilId'' \<mapsto> tipoPerfilId)
                       else usuarioData))))"

text \<open>
  \<open>updateUsuario\<close> overwrites \<open>userData.password\<close> in the caller's object before it
  delegates; the model passes the overwritten object on.
\<close>

definition updateUsuario :: "libs \<Rightarrow> db \<Rightarrow> jsval \<Rightarrow> jsobj \<Rightarrow> error + (jsobj \<times> db)" where
  "updateUsuario L d i userData =
     (if truthy (js_get userData ''password'')
      then (case bcrypt_hash L (js_get userData ''password'') 10 of
              None \<Rightarrow> Inl ErrorDeBiblioteca
            | Some hashedPassword \<Rightarrow>
                update d ''usuarios'' i (userData(''password'' \<mapsto> JStr hashedPassword)))
      else update d ''usuarios'' i userData)"

definition createTarea :: "db \<Rightarrow> jsobj \<Rightarrow> error + (jsobj \<times> db)" where
  "createTarea d tareaData =
     (let descripcion = js_get tareaData ''descripcion'';
          empleadoId = js_get tareaData ''empleadoId'';
          estado = js_get tareaData ''estado'';
          fecha = js_get tareaData ''fecha''
      in if \<not> truthy descripcion \<or> \<not> truthy empleadoId \<or> \<not> truthy estado \<or> \<not> truthy fecha
         then Inl CamposRequeridos
         else create d ''tareas'' tareaData)"

subsection \<open>Joins\<close>

text \<open>The \<open>detallesPerfil\<close> object of \<open>getUsuarioCompleto\<close>.\<close>

definition detallesPerfil :: "db \<Rightarrow> jsobj \<Rightarrow> error + jsobj" where
  "detallesPerfil d perfil =
     (if strict_eq (js_get perfil ''tipo'') (JStr ''empleado'') \<and> truthy (js_get perfil ''empleadoId'')
      then (case getEmpleadoById d (js_get perfil ''empleadoId'') of
              Inl e \<Rightarrow> Inl e
            | Inr empleado \<Rightarrow> Inr [''empleado'' \<mapsto> JObj empleado])
      else if strict_eq (js_get perfil ''tipo'') (JStr ''paciente'') \<and> truthy (js_get perfil ''pacienteId'')
      then (case getPacienteById d (js_get perfil ''pacienteId'') of
              Inl e \<Rightarrow> Inl e
            | Inr paciente \<Rightarrow> Inr [''paciente'' \<mapsto> JObj paciente])
      else Inr Map.empty)"

definition getUsuarioCompleto :: "db \<Rightarrow> jsval \<Rightarrow> error + jsobj" where
  "getUsuarioCompleto d i =
     (case getUsuarioById d i of
        Inl e \<Rightarrow> Inl e
      | Inr usuario \<Rightarrow>
     (case getRoleById d (js_get usuario ''rolId'') of
        Inl e \<Rightarrow> Inl e
      | Inr rol \<Rightarrow>
     (case getPerfilById d (js_get usuario ''perfilId'') of
        Inl e \<Rightarrow> Inl e
      | Inr perfil \<Rightarrow>
     (case detallesPerfil d perfil of
        Inl e \<Rightarrow> Inl e
      | Inr detalles \<Rightarrow>
          Inr (usuario(''rol'' \<mapsto> JObj rol, ''perfil'' \<mapsto> JObj (perfil ++ detalles)))))))"

text \<open>
  The \<open>for\<close> loop of \<open>getTareasCompletas\<close>, with the array \<open>tareasCompletas\<close> it fills. A
  lookup that throws ends the loop and the call.
\<close>

fun bucle_tareas :: "db \<Rightarrow> jsobj list \<Rightarrow> jsobj list \<Rightarrow> error + jsobj list" where
  "bucle_tareas d [] tareasCompletas = Inr tareasCompletas"
| "bucle_tareas d (tarea # resto) tareasCompletas =
     (case getEmpleadoById d (js_get tarea ''empleadoId'') of
        Inl e \<Rightarrow> Inl e
      | Inr empleado \<Rightarrow>
          (case (if truthy (js_get tarea ''pacienteId'')
                 then map_sum (\<lambda>e. e) JObj (getPacienteById d (js_get tarea ''pacienteId''))
                 else Inr JNull) of
             Inl e \<Rightarrow> Inl e
           | Inr paciente \<Rightarrow>
               bucle_tareas d resto
                 (tareasCompletas @ [tarea(''empleado'' \<mapsto> JObj empleado, ''paciente'' \<mapsto> paciente)])))"

definition getTareasCompletas :: "db \<Rightarrow> error + jsobj list" where
  "getTareasCompletas d =
     (case getAllTareas d of
        Inl e \<Rightarrow> Inl e
      | Inr tareas \<Rightarrow> bucle_tareas d tareas [])"

section \<open>The authentication service (\<open>AuthService\<close>)\<close>

text \<open>
  A \<open>Date\<close> is kept as the expression that made it: \<open>DateAt ms\<close> is \<open>new Date()\<close> when
  the clock reads \<open>ms\<close> milliseconds, \<open>DateOfSeconds v\<close> is \<open>new Date(v * 1000)\<close>. Each
  operation reads the clock once, as \<open>now\<close>.
\<close>

datatype jsdate = DateAt int | DateOfSeconds jsval

text \<open>An entry of \<open>sesionesActivas\<close>, the map from token to session.\<close>

record sesion =
  s_id :: string
  s_usuarioId :: jsval
  s_usuario :: jsval
  s_rol :: jsval
  s_permisos :: jsval
  s_fechaCreacion :: jsdate
  s_ultimaActividad :: jsdate
  s_activa :: bool

type_synonym sesiones = "string \<Rightarrow> sesion option"

record config =
  jwtSecret :: string
  jwtExpiresIn :: string

text \<open>The object \<open>crearSesion\<close> returns.\<close>

record sesion_creada =
  token :: string
  sessionId :: string
  c_usuario :: jsobj
  c_permisos :: jsval
  c_fechaCreacion :: jsdate
  expiresIn :: string

text \<open>\<open>v?.k\<close>\<close>

definition opt_member :: "jsval \<Rightarrow> string \<Rightarrow> jsval" where
  "opt_member v k = (if v = JUndefined \<or> v = JNull then JUndefined else member v k)"

definition esAdministrador :: "jsobj \<Rightarrow> jsval" where
  "esAdministrador usuario =
     js_and (js_get usuario ''rol'')
       (JBool (strict_eq (member (js_get usuario ''rol'') ''nombre'') (JStr ''admin'')))"

text \<open>The \<open>payload\<close> of \<open>crearSesion\<close>.\<close>

definition payload_de :: "int \<Rightarrow> jsobj \<Rightarrow> jsobj" where
  "payload_de now usuario =
     [''id'' \<mapsto> js_get usuario ''id'',
      ''usuario'' \<mapsto> js_get usuario ''usuario'',
      ''rol'' \<mapsto> opt_member (js_get usuario ''rol'') ''nombre'',
      ''permisos'' \<mapsto> js_or (opt_member (js_get usuario ''rol'') ''permisos'') (JArr []),
      ''iat'' \<mapsto> JNum (now div 1000)]"

text \<open>
  \<open>usuario.id.toString()\<close> is a \<open>TypeError\<close> when \<open>usuario.id\<close> is \<open>undefined\<close> or
  \<open>null\<close>; it is evaluated for the options of \<open>jwt.sign\<close>, before the session is stored.
\<close>

definition crearSesion ::
  "libs \<Rightarrow> config \<Rightarrow> int \<Rightarrow> sesiones \<Rightarrow> jsobj \<Rightarrow> error + (sesion_creada \<times> sesiones)" where
  "crearSesion L cfg now cache usuario =
     (let payload = payload_de now usuario
      in if js_get usuario ''id'' = JUndefined \<or> js_get usuario ''id'' = JNull then Inl ErrorDeTipo
         else
           (case jwt_sign L payload (jwtSecret cfg) (jwtExpiresIn cfg) ''backend-ifts''
                   (js_get usuario ''id'') of
              None \<Rightarrow> Inl ErrorDeBiblioteca
            | Some tok \<Rightarrow>
                (let sesion = \<lparr> s_id = tok,
                                s_usuarioId = js_get usuario ''id'',
                                s_usuario = js_get usuario ''usuario'',
                                s_rol = opt_member (js_get usuario ''rol'') ''nombre'',
                                s_permisos = js_or (opt_member (js_get usuario ''rol'') ''permisos'') (JArr []),
                                s_fechaCreacion = DateAt now,
                                s_ultimaActividad = DateAt now,
                                s_activa = True \<rparr>
                 in Inr (\<lparr> token = tok,
                           sessionId = tok,
                           c_usuario = [''id'' \<mapsto> js_get usuario ''id'',
                                        ''usuario'' \<mapsto> js_get usuario ''usuario'',
                                        ''rol'' \<mapsto> opt_member (js_get usuario ''rol'') ''nombre'',
                                        ''perfil'' \<mapsto> js_get usuario ''perfil''],
                           c_permisos = js_or (opt_member (js_get usuario ''rol'') ''permisos'') (JArr []),
                           c_fechaCreacion = s_fechaCreacion sesion,
                           expiresIn = jwtExpiresIn cfg \<rparr>,
                         cache(tok \<mapsto> sesion)))))"

text \<open>
  The result objects of the authentication flow: \<open>success\<close> with its \<open>data\<close>, or a failure
  with its \<open>code\<close>. The message texts are left out.
\<close>

datatype codigo = USER_NOT_FOUND | INVALID_PASSWORD | INTERNAL_ERROR | INSUFFICIENT_PERMISSIONS

record datos =
  d_usuario :: jsobj
  d_sesion :: sesion_creada
  d_permisos :: jsval

datatype resultado = Exito datos | Fallo codigo

text \<open>
  \<open>autenticarUsuario\<close>: everything thrown inside its \<open>try\<close> block is caught and answered
  with \<open>INTERNAL_ERROR\<close>. \<open>usuarioEncontrado\<close> is a record of the table, an object, which
  \<open>!usuarioEncontrado\<close> tests.
\<close>

definition autenticarUsuario ::
  "libs \<Rightarrow> config \<Rightarrow> int \<Rightarrow> db \<Rightarrow> sesiones \<Rightarrow> jsval \<Rightarrow> jsval \<Rightarrow> resultado \<times> sesiones" where
  "autenticarUsuario L cfg now d cache usuario password =
     (case getUsuarioByUsername d usuario of
        Inl e \<Rightarrow> (Fallo INTERNAL_ERROR, cache)
      | Inr usuarioEncontrado \<Rightarrow>
          if \<not> truthy (JObj usuarioEncontrado) then (Fallo USER_NOT_FOUND, cache)
          else
            (case bcrypt_compare L password (js_get usuarioEncontrado ''password'') of
               None \<Rightarrow> (Fallo INTERNAL_ERROR, cache)
             | Some passwordValida \<Rightarrow>
                 if \<not> passwordValida then (Fallo INVALID_PASSWORD, cache)
                 else
                   (case getUsuarioCompleto d (js_get usuarioEncontrado ''id'') of
                      Inl e \<Rightarrow> (Fallo INTERNAL_ERROR, cache)
                    | Inr usuarioCompleto \<Rightarrow>
                        (case crearSesion L cfg now cache usuarioCompleto of
                           Inl e \<Rightarrow> (Fallo INTERNAL_ERROR, cache)
                         | Inr (sesion, cache') \<Rightarrow>
                             (Exito \<lparr> d_usuario = usuarioCompleto,
                                      d_sesion = sesion,
                                      d_permisos = js_or (opt_member (js_get usuarioCompleto ''rol'') ''permisos'')
                                                     (JArr []) \<rparr>,
                              cache')))))"

definition autenticarAdmin ::
  "libs \<Rightarrow> config \<Rightarrow> int \<Rightarrow> db \<Rightarrow> sesiones \<Rightarrow> jsval \<Rightarrow> jsval \<Rightarrow> resultado \<times> sesiones" where
  "autenticarAdmin L cfg now d cache usuario password =
     (case autenticarUsuario L cfg now d cache usuario password of
        (Fallo c, cache') \<Rightarrow> (Fallo c, cache')
      | (Exito dat, cache') \<Rightarrow>
          if \<not> truthy (esAdministrador (d_usuario dat)) then (Fallo INSUFFICIENT_PERMISSIONS, cache')
          else (Exito dat, cache'))"

text \<open>\<open>validarToken\<close>: \<open>None\<close> is the \<open>null\<close> it returns for whatever \<open>jwt.verify\<close> throws.\<close>

definition validarToken :: "libs \<Rightarrow> config \<Rightarrow> string \<Rightarrow> jsobj option" where
  "validarToken L cfg tok =
     (case jwt_verify L tok (jwtSecret cfg) of
        Inr decoded \<Rightarrow> Some decoded
      | Inl e \<Rightarrow> None)"

text \<open>
  \<open>obtenerSesion\<close>. The entry found is the object the map holds, so that refreshing its
  \<open>ultimaActividad\<close> changes the entry of the map.
\<close>

definition sesionRecreada :: "int \<Rightarrow> string \<Rightarrow> jsobj \<Rightarrow> sesion" where
  "sesionRecreada now sid payload =
     \<lparr> s_id = sid,
       s_usuarioId = js_get payload ''id'',
       s_usuario = js_get payload ''usuario'',
       s_rol = js_get payload ''rol'',
       s_permisos = js_or (js_get payload ''permisos'') (JArr []),
       s_fechaCreacion = DateOfSeconds (js_get payload ''iat''),
       s_ultimaActividad = DateAt now,
       s_activa = True \<rparr>"

definition obtenerSesion ::
  "libs \<Rightarrow> config \<Rightarrow> int \<Rightarrow> sesiones \<Rightarrow> string \<Rightarrow> sesion option \<times> sesiones" where
  "obtenerSesion L cfg now cache sid =
     (case validarToken L cfg sid of
        None \<Rightarrow> (None, cache)
      | Some payload \<Rightarrow>
          (case cache sid of
             Some sesion \<Rightarrow>
               if s_activa sesion
               then (Some (sesion\<lparr>s_ultimaActividad := DateAt now\<rparr>),
                     cache(sid \<mapsto> sesion\<lparr>s_ultimaActividad := DateAt now\<rparr>))
               else (Some (sesionRecreada now sid payload),
                     cache(sid \<mapsto> sesionRecreada now sid payload))
           | None \<Rightarrow>
               (Some (sesionRecreada now sid payload),
                cache(sid \<mapsto> sesionRecreada now sid payload))))"

subsection \<open>Tables with integer identifiers\<close>

text \<open>
  The data model gives every record an integer identifier. \<open>ids_numericos\<close> says that the
  records of a table carry one, \<open>id_int\<close> reads it, and \<open>spec_next_id\<close> is the next
  identifier in the words of the specification: the greatest existing identifier plus
  one, or one for an empty table. \<open>ids_seguros\<close> says that the identifiers of a table
  are below \<open>2^53\<close> in magnitude, the range in which the code's \<open>maxId + 1\<close> is that
  sum.
\<close>

fun es_entero :: "jsval \<Rightarrow> bool" where
  "es_entero (JNum n) = True"
| "es_entero _ = False"

fun entero :: "jsval \<Rightarrow> int" where
  "entero (JNum n) = n"
| "entero _ = 0"

definition ids_numericos :: "jsobj list \<Rightarrow> bool" where
  "ids_numericos rows = list_all (\<lambda>r. es_entero (js_get r ''id'')) rows"

definition id_int :: "jsobj \<Rightarrow> int" where
  "id_int r = entero (js_get r ''id'')"

definition ids_seguros :: "jsobj list \<Rightarrow> bool" where
  "ids_seguros rows = list_all (\<lambda>r. \<bar>id_int r\<bar> < 2 ^ 53) rows"

definition spec_next_id :: "jsobj list \<Rightarrow> int" where
  "spec_next_id rows = (if rows = [] then 1 else Max (set (map id_int rows)) + 1)"

text \<open>
  The errors that the specification calls not-found errors: an unknown table, an absent
  id, an unknown user name.
\<close>

fun es_no_encontrado :: "error \<Rightarrow> bool" where
  "es_no_encontrado (TablaNoExiste t) = True"
| "es_no_encontrado (RegistroNoEncontrado i t) = True"
| "es_no_encontrado (UsuarioNoEncontrado u) = True"
| "es_no_encontrado _ = False"

text \<open>
  What \<open>getTareasCompletas\<close> is expected to make of one task when its lookups succeed:
  the task with its employee, and with its patient, or \<open>null\<close> where the task has no
  patient id.
\<close>

definition paciente_de :: "db \<Rightarrow> jsobj \<Rightarrow> jsval" where
  "paciente_de d tarea =
     (if truthy (js_get tarea ''pacienteId'')
      then JObj (projr (getPacienteById d (js_get tarea ''pacienteId'')))
      else JNull)"

definition tarea_completa :: "db \<Rightarrow> jsobj \<Rightarrow> jsobj" where
  "tarea_completa d tarea =
     tarea(''empleado'' \<mapsto> JObj (projr (getEmpleadoById d (js_get tarea ''empleadoId''))),
           ''paciente'' \<mapsto> paciente_de d tarea)"

section \<open>Example documents\<close>

text \<open>
  A small clinic: two roles, two users, their profiles and employees, one patient, two
  tasks. The library functions of the examples are stand-ins that make the examples
  computable: a hash that prefixes the password, a signer that always issues the same
  token.
\<close>

definition rol_admin :: jsobj where
  "rol_admin = [''id'' \<mapsto> JNum 1, ''nombre'' \<mapsto> JStr ''admin'',
                ''permisos'' \<mapsto> JArr [JStr ''manage_users'']]"

definition rol_medico :: jsobj where
  "rol_medico = [''id'' \<mapsto> JNum 2, ''nombre'' \<mapsto> JStr ''medico'',
                 ''permisos'' \<mapsto> JArr [JStr ''acceso_medico'']]"

definition db_roles :: db where
  "db_roles = [''roles'' \<mapsto> [rol_admin, rol_medico]]"

definition campos_con_id :: jsobj where
  "campos_con_id = [''id'' \<mapsto> JNum 1, ''nombre'' \<mapsto> JStr ''intruso'']"

definition empleado_1 :: jsobj where
  "empleado_1 = [''id'' \<mapsto> JNum 1, ''nombre'' \<mapsto> JStr ''Administrador del Sistema'',
                 ''puesto'' \<mapsto> JStr ''Administrador'']"

definition empleado_2 :: jsobj where
  "empleado_2 = [''id'' \<mapsto> JNum 2, ''nombre'' \<mapsto> JStr ''Ana'', ''puesto'' \<mapsto> JStr ''Medica'']"

definition paciente_1 :: jsobj where
  "paciente_1 = [''id'' \<mapsto> JNum 1, ''nombre'' \<mapsto> JStr ''Luis'', ''dni'' \<mapsto> JStr ''30111222'']"

definition perfil_1 :: jsobj where
  "perfil_1 = [''id'' \<mapsto> JNum 1, ''tipo'' \<mapsto> JStr ''empleado'', ''empleadoId'' \<mapsto> JNum 1,
               ''pacienteId'' \<mapsto> JNull]"

definition perfil_2 :: jsobj where
  "perfil_2 = [''id'' \<mapsto> JNum 2, ''tipo'' \<mapsto> JStr ''empleado'', ''empleadoId'' \<mapsto> JNum 2,
               ''pacienteId'' \<mapsto> JNull]"

definition usuario_admin :: jsobj where
  "usuario_admin = [''id'' \<mapsto> JNum 1, ''usuario'' \<mapsto> JStr ''admin'',
                    ''password'' \<mapsto> JStr ''bcrypt:admin123'', ''rolId'' \<mapsto> JNum 1,
                    ''perfilId'' \<mapsto> JNum 1]"

definition usuario_ana :: jsobj where
  "usuario_ana = [''id'' \<mapsto> JNum 2, ''usuario'' \<mapsto> JStr ''ana'',
                  ''password'' \<mapsto> JStr ''bcrypt:clave'', ''rolId'' \<mapsto> JNum 2,
                  ''perfilId'' \<mapsto> JNum 2]"

definition usuario_nuevo :: jsobj where
  "usuario_nuevo = [''usuario'' \<mapsto> JStr ''luis'', ''password'' \<mapsto> JStr ''secreto1'',
                    ''rolId'' \<mapsto> JNum 2, ''perfilId'' \<mapsto> JNum 2]"

definition tarea_1 :: jsobj where
  "tarea_1 = [''id'' \<mapsto> JNum 1, ''descripcion'' \<mapsto> JStr ''Control'', ''empleadoId'' \<mapsto> JNum 2,
              ''pacienteId'' \<mapsto> JNum 1, ''estado'' \<mapsto> JStr ''pendiente'',
              ''fecha'' \<mapsto> JStr ''2025-01-10'']"

definition tarea_2 :: jsobj where
  "tarea_2 = [''id'' \<mapsto> JNum 2, ''descripcion'' \<mapsto> JStr ''Inventario'', ''empleadoId'' \<mapsto> JNum 1,
              ''pacienteId'' \<mapsto> JNull, ''estado'' \<mapsto> JStr ''completada'',
              ''fecha'' \<mapsto> JStr ''2025-01-12'']"

definition tarea_colgada :: jsobj where
  "tarea_colgada = [''id'' \<mapsto> JNum 3, ''descripcion'' \<mapsto> JStr ''Control'', ''empleadoId'' \<mapsto> JNum 2,
                    ''pacienteId'' \<mapsto> JNum 9, ''estado'' \<mapsto> JStr ''pendiente'',
                    ''fecha'' \<mapsto> JStr ''2025-01-13'']"

definition tarea_repetida :: jsobj where
  "tarea_repetida = [''id'' \<mapsto> JNum 1, ''descripcion'' \<mapsto> JStr ''Curacion'', ''empleadoId'' \<mapsto> JNum 2,
                     ''estado'' \<mapsto> JStr ''pendiente'', ''fecha'' \<mapsto> JStr ''2025-01-11'']"

definition db_tareas :: db where
  "db_tareas = [''tareas'' \<mapsto> [tarea_1]]"

definition db_clinica :: db where
  "db_clinica =
     [''roles'' \<mapsto> [rol_admin, rol_medico],
      ''usuarios'' \<mapsto> [usuario_admin, usuario_ana],
      ''perfiles'' \<mapsto> [perfil_1, perfil_2],
      ''empleados'' \<mapsto> [empleado_1, empleado_2],
      ''pacientes'' \<mapsto> [paciente_1],
      ''tareas'' \<mapsto> [tarea_1, tarea_2]]"

definition db_tarea_colgada :: db where
  "db_tarea_colgada = db_clinica(''tareas'' \<mapsto> [tarea_2, tarea_colgada])"

definition db_sin_rol :: db where
  "db_sin_rol = db_clinica(''roles'' \<mapsto> [rol_admin])"

definition payload_ejemplo :: jsobj where
  "payload_ejemplo = [''id'' \<mapsto> JNum 1, ''usuario'' \<mapsto> JStr ''admin'', ''rol'' \<mapsto> JStr ''admin'',
                      ''iat'' \<mapsto> JNum 1700000000]"

definition libs_ejemplo :: libs where
  "libs_ejemplo =
     \<lparr> bcrypt_hash = (\<lambda>data rounds. case data of JStr s \<Rightarrow> Some (''bcrypt:'' @ s) | _ \<Rightarrow> None),
       bcrypt_compare = (\<lambda>data encrypted.
          case data of
            JStr s \<Rightarrow> (case encrypted of JStr h \<Rightarrow> Some (h = ''bcrypt:'' @ s) | _ \<Rightarrow> None)
          | _ \<Rightarrow> None),
       jwt_sign = (\<lambda>payload secret expires issuer i. Some ''token-1''),
       jwt_verify = (\<lambda>tok secret. if tok = ''token-1'' then Inr payload_ejemplo
                                  else Inl JsonWebTokenError) \<rparr>"

definition cfg_ejemplo :: config where
  "cfg_ejemplo = \<lparr> jwtSecret = ''secreto'', jwtExpiresIn = ''24h'' \<rparr>"

definition sesion_ejemplo :: sesion where
  "sesion_ejemplo =
     \<lparr> s_id = ''token-1'', s_usuarioId = JNum 1, s_usuario = JStr ''admin'',
       s_rol = JStr ''admin'', s_permisos = JArr [JStr ''manage_users''],
       s_fechaCreacion = DateAt 1700000000000, s_ultimaActividad = DateAt 1700000000000,
       s_activa = True \<rparr>"

section \<open>Searching a table\<close>

lemma parse_int_str_cases: "parse_int_str s = JNaN \<or> (\<exists>n. parse_int_str s = JNum n)"
  by (simp add: parse_int_str_def Let_def)

lemma parse_int_cases: "parse_int v = JNaN \<or> (\<exists>n. parse_int v = JNum n)"
  by (induction v rule: parse_int.induct) (simp_all add: parse_int_str_cases)

lemma strict_eq_parse_int:
  "strict_eq a (parse_int i) \<Longrightarrow> \<exists>n. a = JNum n \<and> parse_int i = JNum n"
  using parse_int_cases [of i] by (cases a) auto

text \<open>A record matches an id only if its \<open>id\<close> is an integer, the one \<open>parseInt\<close> reads.\<close>

lemma mismo_id_num:
  "mismo_id i item \<Longrightarrow> \<exists>n. item ''id'' = Some (JNum n) \<and> parse_int i = JNum n"
  unfolding mismo_id_def js_get_def
  by (auto dest!: strict_eq_parse_int split: option.splits)

lemma mismo_id_same:
  "mismo_id i x \<Longrightarrow> mismo_id i y \<Longrightarrow> js_get x ''id'' = js_get y ''id''"
  by (auto dest!: mismo_id_num simp: js_get_def)

lemma findIndex_Some:
  "findIndex P xs = Some i \<Longrightarrow> i < length xs \<and> P (xs ! i) \<and> find P xs = Some (xs ! i)"
  by (induction xs arbitrary: i) (auto split: if_splits)

lemma find_Some_findIndex:
  "find P xs = Some x \<Longrightarrow> \<exists>i. findIndex P xs = Some i \<and> xs ! i = x"
  by (induction xs) (auto split: if_splits)

lemma find_list_update:
  "findIndex P xs = Some i \<Longrightarrow> P y \<Longrightarrow> find P (xs[i := y]) = Some y"
  by (induction xs arbitrary: i) (auto split: if_splits)

lemma find_append:
  "find P (xs @ ys) = (case find P xs of None \<Rightarrow> find P ys | Some x \<Rightarrow> Some x)"
  by (induction xs) simp_all

text \<open>
  Where the records that match agree on a key and the keys of the list are distinct,
  removing the first match leaves no match.
\<close>

lemma find_after_remove:
  assumes "findIndex P xs = Some ix" and "distinct (map f xs)"
    and "\<And>x y. P x \<Longrightarrow> P y \<Longrightarrow> f x = f y"
  shows "find P (take ix xs @ drop (Suc ix) xs) = None"
  using assms(1,2)
proof (induction xs arbitrary: ix)
  case Nil
  then show ?case by simp
next
  case (Cons x xs)
  show ?case
  proof (cases "P x")
    case True
    with Cons.prems have ix: "ix = 0" by simp
    have "\<not> P y" if "y \<in> set xs" for y
    proof
      assume "P y"
      with True have "f x = f y" by (rule assms(3))
      with that Cons.prems(2) show False by auto
    qed
    with ix show ?thesis by (simp add: find_None_iff)
  next
    case False
    with Cons.prems obtain j where j: "findIndex P xs = Some j" "ix = Suc j"
      by auto
    with Cons.IH [of j] Cons.prems(2) False show ?thesis by simp
  qed
qed

section \<open>The generic operations\<close>

lemma getById_found:
  "d t = Some rows \<Longrightarrow> find (mismo_id i) rows = Some r \<Longrightarrow> getById d t i = Inr r"
  by (simp add: getById_def)

lemma getById_not_found:
  "d t = Some rows \<Longrightarrow> find (mismo_id i) rows = None \<Longrightarrow>
   getById d t i = Inl (RegistroNoEncontrado i t)"
  by (simp add: getById_def)

lemma getById_Inr:
  "getById d t i = Inr r \<Longrightarrow> \<exists>rows. d t = Some rows \<and> find (mismo_id i) rows = Some r"
  by (auto simp: getById_def split: option.splits)

lemma getById_error: "getById d t i = Inl e \<Longrightarrow> es_no_encontrado e"
  by (auto simp: getById_def split: option.splits)

lemma update_found:
  "d t = Some rows \<Longrightarrow> findIndex (mismo_id i) rows = Some ix \<Longrightarrow>
   (rows ! ix ++ upd)(''id'' \<mapsto> parse_int i) = r \<Longrightarrow>
   update d t i upd = Inr (r, d(t \<mapsto> rows[ix := r]))"
  by (simp add: update_def Let_def)

lemma delete_found:
  "d t = Some rows \<Longrightarrow> findIndex (mismo_id i) rows = Some ix \<Longrightarrow>
   delete d t i = Inr (rows ! ix, d(t \<mapsto> take ix rows @ drop (Suc ix) rows))"
  by (simp add: delete_def)

lemma map_id_list_update:
  "js_get r ''id'' = js_get (rows ! ix) ''id'' \<Longrightarrow>
   map (\<lambda>x. js_get x ''id'') (rows[ix := r]) = map (\<lambda>x. js_get x ''id'') rows"
  by (cases "ix < length rows") (simp_all add: map_update list_update_same_conv list_update_beyond)

text \<open>
  \<open>update\<close> on a record that \<open>getById\<close> finds: the record found, overlaid with the new
  fields and with its own \<open>id\<close> put back, replaces it in the table, and is found there.
\<close>

lemma update_existing:
  assumes "getById d t i = Inr old"
  shows "\<exists>rows ix. d t = Some rows \<and> rows ! ix = old
           \<and> update d t i upd
               = Inr ((old ++ upd)(''id'' := old ''id''),
                      d(t \<mapsto> rows[ix := (old ++ upd)(''id'' := old ''id'')]))
           \<and> getById (d(t \<mapsto> rows[ix := (old ++ upd)(''id'' := old ''id'')])) t i
               = Inr ((old ++ upd)(''id'' := old ''id''))"
proof -
  from getById_Inr [OF assms]
  obtain rows where rows: "d t = Some rows" and f: "find (mismo_id i) rows = Some old"
    by blast
  from find_Some_findIndex [OF f]
  obtain ix where ix: "findIndex (mismo_id i) rows = Some ix" and old: "rows ! ix = old"
    by blast
  from findIndex_Some [OF ix] old have m: "mismo_id i old"
    by simp
  from mismo_id_num [OF m] obtain n where n: "old ''id'' = Some (JNum n)" "parse_int i = JNum n"
    by blast
  define r where "r = (old ++ upd)(''id'' := old ''id'')"
  define d' where "d' = d(t \<mapsto> rows[ix := r])"
  have "(rows ! ix ++ upd)(''id'' \<mapsto> parse_int i) = r"
    using n old by (simp add: r_def)
  then have u: "update d t i upd = Inr (r, d')"
    unfolding d'_def by (rule update_found [where d = d and t = t, OF rows ix])
  have "mismo_id i r"
    using n by (simp add: r_def mismo_id_def js_get_def)
  then have "find (mismo_id i) (rows[ix := r]) = Some r"
    by (rule find_list_update [OF ix])
  then have g: "getById d' t i = Inr r"
    by (intro getById_found [where d = d' and t = t and rows = "rows[ix := r]"])
       (simp_all add: d'_def)
  from rows old u g show ?thesis
    unfolding r_def d'_def by (intro exI [of _ rows] exI [of _ ix] conjI)
qed

subsection \<open>The next identifier of a table with integer ids\<close>

lemma es_entero_JNum: "es_entero v \<Longrightarrow> v = JNum (entero v)"
  by (cases v) simp_all

lemma ids_numericos_Cons:
  "ids_numericos (r # rs) \<longleftrightarrow> es_entero (js_get r ''id'') \<and> ids_numericos rs"
  by (simp add: ids_numericos_def)

lemma ids_numericos_js_get:
  "ids_numericos rows \<Longrightarrow> r \<in> set rows \<Longrightarrow> js_get r ''id'' = JNum (id_int r)"
  by (simp add: ids_numericos_def list_all_iff id_int_def es_entero_JNum)

lemma ids_numericos_subset:
  "ids_numericos rows \<Longrightarrow> set rows' \<subseteq> set rows \<Longrightarrow> ids_numericos rows'"
  by (auto simp: ids_numericos_def list_all_iff)

lemma math_max_ids:
  "rows \<noteq> [] \<Longrightarrow> ids_numericos rows \<Longrightarrow>
   math_max (map (\<lambda>item. js_get item ''id'') rows) = Some (JNum (Max (set (map id_int rows))))"
proof (induction rows rule: list_nonempty_induct)
  case (single r)
  from single have "js_get r ''id'' = JNum (id_int r)"
    by (simp add: ids_numericos_js_get)
  then show ?case by simp
next
  case (cons r rs)
  then obtain r' rs' where rs: "rs = r' # rs'" by (cases rs) auto
  from cons.prems have n: "js_get r ''id'' = JNum (id_int r)" and rest: "ids_numericos rs"
    by (simp_all add: ids_numericos_Cons id_int_def es_entero_JNum)
  have "math_max (map (\<lambda>item. js_get item ''id'') rs) = Some (JNum (Max (set (map id_int rs))))"
    using cons.IH rest by simp
  then have "math_max (js_get r ''id'' # map (\<lambda>item. js_get item ''id'') rs)
               = Some (JNum (max (id_int r) (Max (set (map id_int rs)))))"
    using n rs by simp
  moreover have "Max (set (map id_int (r # rs))) = max (id_int r) (Max (set (map id_int rs)))"
    using cons.hyps by simp
  ultimately show ?case by simp
qed

lemma maxId_numericos:
  "ids_numericos rows \<Longrightarrow> maxId rows = Some (JNum (spec_next_id rows - 1))"
  by (cases "rows = []") (simp_all add: maxId_def spec_next_id_def math_max_ids)

text \<open>
  \<open>create\<close> on a table with integer ids: the generated id is \<open>plus_one\<close> of the greatest
  id, and the fields are copied over it.
\<close>

lemma create_numericos:
  "d t = Some rows \<Longrightarrow> ids_numericos rows \<Longrightarrow>
   create d t campos
     = Inr ([''id'' \<mapsto> plus_one (JNum (spec_next_id rows - 1))] ++ campos,
            d(t \<mapsto> rows @ [[''id'' \<mapsto> plus_one (JNum (spec_next_id rows - 1))] ++ campos]))"
  by (simp add: create_def Let_def maxId_numericos)

lemma map_add_has_id:
  "campos ''id'' = Some v \<Longrightarrow> [''id'' \<mapsto> w] ++ campos = campos"
  by (rule ext) (simp add: map_add_def split: option.splits)

lemma map_add_no_id:
  "campos ''id'' = None \<Longrightarrow> [''id'' \<mapsto> w] ++ campos = campos(''id'' \<mapsto> w)"
  by (rule ext) (simp add: map_add_def split: option.splits)

text \<open>Below \<open>2^53\<close> in magnitude the greatest id plus one is exact.\<close>

lemma ids_seguros_Max:
  assumes "ids_seguros rows"
  shows "\<bar>spec_next_id rows - 1\<bar> < 2 ^ 53"
proof (cases "rows = []")
  case True
  then show ?thesis by (simp add: spec_next_id_def)
next
  case False
  then have "Max (set (map id_int rows)) \<in> set (map id_int rows)"
    by (intro Max_in) simp_all
  then obtain r where "r \<in> set rows" "Max (set (map id_int rows)) = id_int r"
    by auto
  with assms False show ?thesis
    by (simp add: spec_next_id_def ids_seguros_def list_all_iff)
qed

lemma plus_one_seguro:
  assumes "ids_seguros rows"
  shows "plus_one (JNum (spec_next_id rows - 1)) = JNum (spec_next_id rows)"
proof -
  from ids_seguros_Max [OF assms] have "\<bar>spec_next_id rows - 1 + 1\<bar> \<le> 2 ^ 53"
    by linarith
  then show ?thesis by simp
qed

lemma ids_seguros_subset:
  "ids_seguros rows \<Longrightarrow> set rows' \<subseteq> set rows \<Longrightarrow> ids_seguros rows'"
  by (auto simp: ids_seguros_def list_all_iff)

text \<open>
  At \<open>2^53\<close> the sum is not exact: \<open>2^53 + 1\<close> is rounded to \<open>2^53\<close>, so that a table
  whose greatest id is \<open>2^53\<close> gets that id again.
\<close>

lemma to_double_2_53: "to_double 9007199254740993 = 9007199254740992"
  by code_simp

lemma plus_one_2_53: "plus_one (JNum (2 ^ 53)) = JNum (2 ^ 53)"
  by (simp add: to_double_2_53)

text \<open>\<open>create\<close> with fields that bring no \<open>id\<close>: the generated id takes its place.\<close>

lemma create_sin_id_general:
  assumes "d t = Some rows" and "ids_numericos rows" and "campos ''id'' = None"
  shows "create d t campos
           = Inr (campos(''id'' \<mapsto> plus_one (JNum (spec_next_id rows - 1))),
                  d(t \<mapsto> rows @ [campos(''id'' \<mapsto> plus_one (JNum (spec_next_id rows - 1)))]))"
  using create_numericos [where d = d and t = t, OF assms(1,2), of campos]
  by (simp add: map_add_no_id [where campos = campos, OF assms(3)])

text \<open>With ids below \<open>2^53\<close> in magnitude, the generated id is the next one.\<close>

lemma create_sin_id:
  assumes "d t = Some rows" and "ids_numericos rows" and "ids_seguros rows"
    and "campos ''id'' = None"
  shows "create d t campos
           = Inr (campos(''id'' \<mapsto> JNum (spec_next_id rows)),
                  d(t \<mapsto> rows @ [campos(''id'' \<mapsto> JNum (spec_next_id rows))]))"
  using create_sin_id_general [where d = d and t = t and campos = campos, OF assms(1,2,4)]
  by (simp only: plus_one_seguro [OF assms(3)])

lemma id_int_less_next: "r \<in> set rows \<Longrightarrow> id_int r < spec_next_id rows"
proof -
  assume a: "r \<in> set rows"
  then have "id_int r \<le> Max (set (map id_int rows))" by (intro Max_ge) auto
  with a show ?thesis by (auto simp: spec_next_id_def)
qed

lemma no_match_next:
  assumes "ids_numericos rows"
  shows "find (mismo_id (JNum (spec_next_id rows))) rows = None"
proof -
  have "\<not> mismo_id (JNum (spec_next_id rows)) x" if "x \<in> set rows" for x
    using ids_numericos_js_get [OF assms that] id_int_less_next [OF that]
    by (simp add: mismo_id_def)
  then show ?thesis by (simp add: find_None_iff)
qed

section \<open>\<open>update\<close> keeps the identifier\<close>

text \<open>
  Claim C4. For every table and every id that \<open>getById\<close> finds there, with \<open>old\<close> the record
  found, and for every object \<open>upd\<close> of new fields, whatever \<open>id\<close> it may carry: \<open>update\<close>
  succeeds; the record it returns is \<open>old\<close> overlaid with \<open>upd\<close> and with the \<open>id\<close> of
  \<open>old\<close> put back; that record is what \<open>getById\<close> finds afterwards under the same id; and the
  ids of the table, in order, are what they were.
\<close>

theorem update_keeps_id:
  assumes "getById d t i = Inr old"
  shows "\<exists>r d'. update d t i upd = Inr (r, d')
           \<and> r = (old ++ upd)(''id'' := old ''id'')
           \<and> js_get r ''id'' = js_get old ''id''
           \<and> getById d' t i = Inr r
           \<and> map_option (map (\<lambda>x. js_get x ''id'')) (d' t)
               = map_option (map (\<lambda>x. js_get x ''id'')) (d t)"
proof -
  define r where "r = (old ++ upd)(''id'' := old ''id'')"
  from update_existing [OF assms, of upd]
  obtain rows ix where rows: "d t = Some rows" and old: "rows ! ix = old"
    and u: "update d t i upd = Inr (r, d(t \<mapsto> rows[ix := r]))"
    and g: "getById (d(t \<mapsto> rows[ix := r])) t i = Inr r"
    unfolding r_def by blast
  have rid: "js_get r ''id'' = js_get old ''id''"
    by (simp add: r_def js_get_def)
  have "map (\<lambda>x. js_get x ''id'') (rows[ix := r]) = map (\<lambda>x. js_get x ''id'') rows"
    using rid old by (intro map_id_list_update) simp
  then have ids: "map_option (map (\<lambda>x. js_get x ''id'')) ((d(t \<mapsto> rows[ix := r])) t)
                    = map_option (map (\<lambda>x. js_get x ''id'')) (d t)"
    by (simp add: rows)
  from u r_def rid g ids show ?thesis
    by (intro exI [of _ r] exI [of _ "d(t \<mapsto> rows[ix := r])"] conjI)
qed

text \<open>
  The role \<open>medico\<close>, id 2, updated with \<open>{id: 7, nombre: 'enfermero'}\<close>: the id stays 2.
\<close>

theorem update_keeps_id_witness:
  "getById db_roles ''roles'' (JNum 2) = Inr rol_medico
   \<and> (\<exists>r d'. update db_roles ''roles'' (JNum 2) [''id'' \<mapsto> JNum 7, ''nombre'' \<mapsto> JStr ''enfermero'']
               = Inr (r, d')
        \<and> js_get r ''id'' = JNum 2
        \<and> js_get r ''nombre'' = JStr ''enfermero''
        \<and> getById d' ''roles'' (JNum 2) = Inr r)"
proof -
  have h: "getById db_roles ''roles'' (JNum 2) = Inr rol_medico"
    by (simp add: getById_def db_roles_def mismo_id_def js_get_def rol_admin_def rol_medico_def)
  from update_keeps_id [OF h, of "[''id'' \<mapsto> JNum 7, ''nombre'' \<mapsto> JStr ''enfermero'']"]
  obtain r d' where
    "update db_roles ''roles'' (JNum 2) [''id'' \<mapsto> JNum 7, ''nombre'' \<mapsto> JStr ''enfermero''] = Inr (r, d')"
    "r = (rol_medico ++ [''id'' \<mapsto> JNum 7, ''nombre'' \<mapsto> JStr ''enfermero''])(''id'' := rol_medico ''id'')"
    "getById d' ''roles'' (JNum 2) = Inr r"
    by blast
  moreover from this(2) have "js_get r ''id'' = JNum 2" "js_get r ''nombre'' = JStr ''enfermero''"
    by (simp_all add: js_get_def rol_medico_def)
  ultimately show ?thesis using h by blast
qed

section \<open>\<open>create\<close> and the next identifier\<close>

text \<open>
  Claim C3, as the code has it. In a table whose records carry integer ids below \<open>2^53\<close>
  in magnitude, \<open>create\<close> with a fields object that has no \<open>id\<close> key returns the fields
  with \<open>id\<close> set to the greatest existing id plus one (one for an empty table), appends
  that record to the table, and \<open>getById\<close> on the returned id then finds that very
  record.
\<close>

theorem create_then_getById:
  assumes "d t = Some rows" and "ids_numericos rows" and "ids_seguros rows"
    and "campos ''id'' = None"
  shows "\<exists>r d'. create d t campos = Inr (r, d')
           \<and> r = campos(''id'' \<mapsto> JNum (spec_next_id rows))
           \<and> d' t = Some (rows @ [r])
           \<and> getById d' t (js_get r ''id'') = Inr r"
proof -
  define r where "r = campos(''id'' \<mapsto> JNum (spec_next_id rows))"
  define d' where "d' = d(t \<mapsto> rows @ [r])"
  from create_sin_id [where d = d and t = t and campos = campos, OF assms]
  have c: "create d t campos = Inr (r, d')"
    by (simp add: r_def d'_def)
  have rid: "js_get r ''id'' = JNum (spec_next_id rows)"
    by (simp add: r_def js_get_def)
  have "find (mismo_id (JNum (spec_next_id rows))) (rows @ [r]) = Some r"
    using no_match_next [OF assms(2)] rid by (simp add: find_append mismo_id_def)
  then have g: "getById d' t (js_get r ''id'') = Inr r"
    unfolding rid
    by (intro getById_found [where d = d' and t = t and rows = "rows @ [r]"]) (simp_all add: d'_def)
  have "d' t = Some (rows @ [r])" by (simp add: d'_def)
  with c r_def g show ?thesis
    by (intro exI [of _ r] exI [of _ d'] conjI)
qed

text \<open>
  The roles have ids 1 and 2, and a role named \<open>enfermero\<close> is created: it gets id 3.
\<close>

theorem create_then_getById_witness:
  "db_roles ''roles'' = Some [rol_admin, rol_medico]
   \<and> ids_numericos [rol_admin, rol_medico]
   \<and> ids_seguros [rol_admin, rol_medico]
   \<and> (\<exists>r d'. create db_roles ''roles'' [''nombre'' \<mapsto> JStr ''enfermero''] = Inr (r, d')
        \<and> js_get r ''id'' = JNum 3
        \<and> js_get r ''nombre'' = JStr ''enfermero''
        \<and> getById d' ''roles'' (JNum 3) = Inr r)"
proof -
  have h1: "db_roles ''roles'' = Some [rol_admin, rol_medico]"
    by (simp add: db_roles_def)
  have h2: "ids_numericos [rol_admin, rol_medico]"
    by (simp add: ids_numericos_def js_get_def rol_admin_def rol_medico_def)
  have hs: "ids_seguros [rol_admin, rol_medico]"
    by (simp add: ids_seguros_def id_int_def js_get_def rol_admin_def rol_medico_def)
  have h3: "[''nombre'' \<mapsto> JStr ''enfermero''] ''id'' = None"
    by simp
  have n: "spec_next_id [rol_admin, rol_medico] = 3"
    by (simp add: spec_next_id_def id_int_def js_get_def rol_admin_def rol_medico_def)
  from create_then_getById [where d = db_roles and t = "''roles''"
      and campos = "[''nombre'' \<mapsto> JStr ''enfermero'']", OF h1 h2 hs h3]
  obtain r d' where
    "create db_roles ''roles'' [''nombre'' \<mapsto> JStr ''enfermero''] = Inr (r, d')"
    "r = [''nombre'' \<mapsto> JStr ''enfermero''](''id'' \<mapsto> JNum (spec_next_id [rol_admin, rol_medico]))"
    "getById d' ''roles'' (js_get r ''id'') = Inr r"
    by blast
  moreover from this(2) have "js_get r ''id'' = JNum 3" "js_get r ''nombre'' = JStr ''enfermero''"
    by (simp_all add: js_get_def n)
  ultimately show ?thesis using h1 h2 hs by auto
qed

text \<open>
  Claim C3 as stated fails when the fields object brings an \<open>id\<close> of its own. The roles
  have ids 1 and 2; \<open>create\<close> with \<open>{id: 1, nombre: 'intruso'}\<close> returns and stores a
  record with id 1, not 3, and \<open>getById\<close> on that id finds the role \<open>admin\<close>, whose
  \<open>nombre\<close> is not the one given.
\<close>

theorem create_id_counterexample:
  "create db_roles ''roles'' campos_con_id
     = Inr (campos_con_id, db_roles(''roles'' \<mapsto> [rol_admin, rol_medico, campos_con_id]))
   \<and> js_get campos_con_id ''id'' = JNum 1
   \<and> JNum 1 \<noteq> JNum (spec_next_id [rol_admin, rol_medico])
   \<and> getById (db_roles(''roles'' \<mapsto> [rol_admin, rol_medico, campos_con_id])) ''roles'' (JNum 1)
       = Inr rol_admin
   \<and> js_get rol_admin ''nombre'' \<noteq> js_get campos_con_id ''nombre''"
  by (simp add: create_def getById_def mismo_id_def db_roles_def maxId_def js_get_def rol_admin_def
        rol_medico_def campos_con_id_def Let_def spec_next_id_def id_int_def)

section \<open>A caller's \<open>id\<close> wins over the generated one\<close>

text \<open>
  Claim C10. In a table whose records carry integer ids, \<open>create\<close> with a fields object
  that has an \<open>id\<close> key returns and stores the fields as they are, so the id of the new
  record is the caller's; if a record of the table already has that id, the table then
  holds the id twice. \<open>createTarea\<close>, once the four required fields are there, is
  \<open>create\<close> on \<open>tareas\<close> with the caller's whole object.
\<close>

theorem create_keeps_caller_id:
  assumes "d t = Some rows" and "ids_numericos rows" and "campos ''id'' = Some v"
  shows "create d t campos = Inr (campos, d(t \<mapsto> rows @ [campos]))
         \<and> js_get campos ''id'' = v
         \<and> ((\<exists>x\<in>set rows. js_get x ''id'' = v)
              \<longrightarrow> \<not> distinct (map (\<lambda>x. js_get x ''id'') (rows @ [campos])))
         \<and> (truthy (js_get campos ''descripcion'') \<and> truthy (js_get campos ''empleadoId'')
              \<and> truthy (js_get campos ''estado'') \<and> truthy (js_get campos ''fecha'')
              \<longrightarrow> createTarea d campos = create d ''tareas'' campos)"
proof -
  have "create d t campos = Inr (campos, d(t \<mapsto> rows @ [campos]))"
    using create_numericos [where d = d and t = t, OF assms(1,2), of campos]
    by (simp add: map_add_has_id [where campos = campos, OF assms(3)])
  moreover have "js_get campos ''id'' = v"
    using assms(3) by (simp add: js_get_def)
  moreover have "\<not> distinct (map (\<lambda>x. js_get x ''id'') (rows @ [campos]))"
    if "\<exists>x\<in>set rows. js_get x ''id'' = v"
  proof -
    from that obtain x where "x \<in> set rows" "js_get x ''id'' = v" by blast
    then have "js_get campos ''id'' \<in> (\<lambda>x. js_get x ''id'') ` set rows"
      using assms(3) by (force simp: js_get_def)
    then show ?thesis by simp
  qed
  moreover have "createTarea d campos = create d ''tareas'' campos"
    if "truthy (js_get campos ''descripcion'') \<and> truthy (js_get campos ''empleadoId'')
        \<and> truthy (js_get campos ''estado'') \<and> truthy (js_get campos ''fecha'')"
    using that by (simp add: createTarea_def Let_def)
  ultimately show ?thesis by blast
qed

text \<open>A second task with id 1 is created through \<open>createTarea\<close>.\<close>

theorem create_keeps_caller_id_witness:
  "db_tareas ''tareas'' = Some [tarea_1] \<and> ids_numericos [tarea_1]
   \<and> tarea_repetida ''id'' = Some (JNum 1) \<and> js_get tarea_1 ''id'' = JNum 1
   \<and> createTarea db_tareas tarea_repetida
       = Inr (tarea_repetida, db_tareas(''tareas'' \<mapsto> [tarea_1, tarea_repetida]))
   \<and> \<not> distinct (map (\<lambda>x. js_get x ''id'') [tarea_1, tarea_repetida])"
proof -
  have h1: "db_tareas ''tareas'' = Some [tarea_1]"
    by (simp add: db_tareas_def)
  have h2: "ids_numericos [tarea_1]"
    by (simp add: ids_numericos_def js_get_def tarea_1_def)
  have h3: "tarea_repetida ''id'' = Some (JNum 1)"
    by (simp add: tarea_repetida_def)
  have h4: "js_get tarea_1 ''id'' = JNum 1"
    by (simp add: js_get_def tarea_1_def)
  have h5: "truthy (js_get tarea_repetida ''descripcion'') \<and> truthy (js_get tarea_repetida ''empleadoId'')
            \<and> truthy (js_get tarea_repetida ''estado'') \<and> truthy (js_get tarea_repetida ''fecha'')"
    by (simp add: js_get_def tarea_repetida_def)
  note inst = create_keeps_caller_id [where d = db_tareas and t = "''tareas''"
      and campos = tarea_repetida, OF h1 h2 h3]
  from inst have a: "create db_tareas ''tareas'' tarea_repetida
      = Inr (tarea_repetida, db_tareas(''tareas'' \<mapsto> [tarea_1] @ [tarea_repetida]))"
    by (rule conjunct1)
  from inst have b: "(\<exists>x\<in>set [tarea_1]. js_get x ''id'' = JNum 1)
      \<longrightarrow> \<not> distinct (map (\<lambda>x. js_get x ''id'') ([tarea_1] @ [tarea_repetida]))"
    by (elim conjE)
  from inst have "truthy (js_get tarea_repetida ''descripcion'') \<and> truthy (js_get tarea_repetida ''empleadoId'')
            \<and> truthy (js_get tarea_repetida ''estado'') \<and> truthy (js_get tarea_repetida ''fecha'')
        \<longrightarrow> createTarea db_tareas tarea_repetida = create db_tareas ''tareas'' tarea_repetida"
    by (elim conjE)
  from this h5 have c: "createTarea db_tareas tarea_repetida = create db_tareas ''tareas'' tarea_repetida"
    by (rule mp)
  have "\<exists>x\<in>set [tarea_1]. js_get x ''id'' = JNum 1"
    using h4 by simp
  with b have "\<not> distinct (map (\<lambda>x. js_get x ''id'') ([tarea_1] @ [tarea_repetida]))"
    by (rule mp)
  then have e: "\<not> distinct (map (\<lambda>x. js_get x ''id'') [tarea_1, tarea_repetida])"
    by simp
  from a c have f: "createTarea db_tareas tarea_repetida
      = Inr (tarea_repetida, db_tareas(''tareas'' \<mapsto> [tarea_1, tarea_repetida]))"
    by simp
  from h1 h2 h3 h4 f e show ?thesis by (intro conjI)
qed

section \<open>\<open>delete\<close>, and the identifier of the next \<open>create\<close>\<close>

text \<open>
  Claim C5, as the code has it. In a table whose ids are no two the same, let \<open>getById\<close>
  find \<open>old\<close> under an id. Then \<open>delete\<close> returns \<open>old\<close> and leaves a table of the other
  records, in which \<open>getById\<close> on the same id fails with the record-not-found error. If moreover the ids
  are integers below \<open>2^53\<close> in magnitude, the \<open>create\<close> that follows (its fields without
  an \<open>id\<close> key) gives the greatest remaining id plus one (one if no record remains);
  that id is greater than the deleted one whenever the table held a record with a greater
  id than \<open>old\<close>.
\<close>

theorem delete_then_create:
  assumes "d t = Some rows"
    and "distinct (map (\<lambda>x. js_get x ''id'') rows)"
    and "getById d t i = Inr old"
  shows "\<exists>d1 rows1. delete d t i = Inr (old, d1)
           \<and> d1 t = Some rows1
           \<and> set rows = insert old (set rows1)
           \<and> getById d1 t i = Inl (RegistroNoEncontrado i t)
           \<and> (ids_numericos rows \<and> ids_seguros rows \<and> campos ''id'' = None
                \<longrightarrow> (\<exists>r d2. create d1 t campos = Inr (r, d2)
                       \<and> js_get r ''id'' = JNum (spec_next_id rows1)
                       \<and> js_get old ''id'' = JNum (id_int old)
                       \<and> ((\<exists>x\<in>set rows. id_int old < id_int x)
                            \<longrightarrow> id_int old < spec_next_id rows1)))"
proof -
  from getById_Inr [OF assms(3)] assms(1) have f: "find (mismo_id i) rows = Some old"
    by simp
  from find_Some_findIndex [OF f]
  obtain ix where ix: "findIndex (mismo_id i) rows = Some ix" and old: "rows ! ix = old"
    by blast
  from findIndex_Some [OF ix] have lt: "ix < length rows" by simp
  define rows1 where "rows1 = take ix rows @ drop (Suc ix) rows"
  define d1 where "d1 = d(t \<mapsto> rows1)"
  have del: "delete d t i = Inr (old, d1)"
    using delete_found [where d = d and t = t, OF assms(1) ix] old by (simp add: d1_def rows1_def)
  have d1t: "d1 t = Some rows1" by (simp add: d1_def)
  have "find (mismo_id i) rows1 = None"
    unfolding rows1_def
    by (rule find_after_remove [OF ix assms(2)]) (rule mismo_id_same)
  then have g: "getById d1 t i = Inl (RegistroNoEncontrado i t)"
    by (intro getById_not_found [where rows = rows1]) (simp_all add: d1_def)
  have sub: "set rows1 \<subseteq> set rows"
    unfolding rows1_def using set_take_subset [of ix rows] set_drop_subset [of "Suc ix" rows] by auto
  have mem: "old \<in> set rows" using lt old by (auto simp: in_set_conv_nth)
  have parts: "set rows = insert old (set rows1)"
  proof -
    have "take ix rows @ rows ! ix # drop (Suc ix) rows = rows"
      by (rule id_take_nth_drop [OF lt, symmetric])
    then have "set (take ix rows @ rows ! ix # drop (Suc ix) rows) = set rows"
      by (rule arg_cong)
    then show ?thesis
      by (simp add: rows1_def old)
  qed
  have after: "\<exists>r d2. create d1 t campos = Inr (r, d2)
                 \<and> js_get r ''id'' = JNum (spec_next_id rows1)
                 \<and> js_get old ''id'' = JNum (id_int old)
                 \<and> ((\<exists>x\<in>set rows. id_int old < id_int x) \<longrightarrow> id_int old < spec_next_id rows1)"
    if h: "ids_numericos rows \<and> ids_seguros rows \<and> campos ''id'' = None"
  proof -
    define r where "r = campos(''id'' \<mapsto> JNum (spec_next_id rows1))"
    define d2 where "d2 = d1(t \<mapsto> rows1 @ [r])"
    from h sub have num1: "ids_numericos rows1" and seg1: "ids_seguros rows1"
      by (auto intro: ids_numericos_subset ids_seguros_subset)
    from h have noid: "campos ''id'' = None" by simp
    from create_sin_id [where d = d1 and t = t and campos = campos, OF d1t num1 seg1 noid]
    have c: "create d1 t campos = Inr (r, d2)"
      by (simp add: r_def d2_def)
    have rid: "js_get r ''id'' = JNum (spec_next_id rows1)"
      by (simp add: r_def js_get_def)
    from h have "ids_numericos rows" by simp
    from ids_numericos_js_get [OF this mem] have oid: "js_get old ''id'' = JNum (id_int old)" .
    have less: "id_int old < spec_next_id rows1" if "\<exists>x\<in>set rows. id_int old < id_int x"
    proof -
      from that obtain x where x: "x \<in> set rows" "id_int old < id_int x" by blast
      then have "x \<noteq> old" by auto
      with x(1) parts have "x \<in> set rows1" by simp
      then have "id_int x < spec_next_id rows1" by (rule id_int_less_next)
      with x(2) show ?thesis by simp
    qed
    from c rid oid less show ?thesis
      by (intro exI [of _ r] exI [of _ d2] conjI impI)
  qed
  from del d1t parts g after show ?thesis
    by (intro exI [of _ d1] exI [of _ rows1] conjI impI)
qed

text \<open>
  The role with id 1 is deleted while the role with id 2 stays: it is found no more, and
  the next id is 3.
\<close>

theorem delete_then_create_witness:
  "db_roles ''roles'' = Some [rol_admin, rol_medico]
   \<and> getById db_roles ''roles'' (JNum 1) = Inr rol_admin
   \<and> id_int rol_admin = 1
   \<and> (\<exists>d1 rows1. delete db_roles ''roles'' (JNum 1) = Inr (rol_admin, d1)
         \<and> d1 ''roles'' = Some rows1
         \<and> getById d1 ''roles'' (JNum 1) = Inl (RegistroNoEncontrado (JNum 1) ''roles'')
         \<and> (\<exists>r d2. create d1 ''roles'' [''nombre'' \<mapsto> JStr ''enfermero''] = Inr (r, d2)
               \<and> js_get r ''id'' = JNum (spec_next_id rows1)
               \<and> 1 < spec_next_id rows1))"
proof -
  have h1: "db_roles ''roles'' = Some [rol_admin, rol_medico]"
    by (simp add: db_roles_def)
  have h2: "distinct (map (\<lambda>x. js_get x ''id'') [rol_admin, rol_medico])"
    by (simp add: js_get_def rol_admin_def rol_medico_def)
  have h3: "getById db_roles ''roles'' (JNum 1) = Inr rol_admin"
    by (simp add: getById_def db_roles_def mismo_id_def js_get_def rol_admin_def)
  have i1: "id_int rol_admin = 1" and i2: "id_int rol_medico = 2"
    by (simp_all add: id_int_def js_get_def rol_admin_def rol_medico_def)
  have "ids_numericos [rol_admin, rol_medico]"
    by (simp add: ids_numericos_def js_get_def rol_admin_def rol_medico_def)
  moreover have "ids_seguros [rol_admin, rol_medico]"
    by (simp add: ids_seguros_def i1 i2)
  ultimately have h4: "ids_numericos [rol_admin, rol_medico] \<and> ids_seguros [rol_admin, rol_medico]
            \<and> [''nombre'' \<mapsto> JStr ''enfermero''] ''id'' = None"
    by simp
  have h5: "\<exists>x\<in>set [rol_admin, rol_medico]. id_int rol_admin < id_int x"
    by (simp add: i1 i2)
  from delete_then_create [where d = db_roles and t = "''roles''" and i = "JNum 1"
      and campos = "[''nombre'' \<mapsto> JStr ''enfermero'']", OF h1 h2 h3]
  obtain d1 rows1 where a: "delete db_roles ''roles'' (JNum 1) = Inr (rol_admin, d1)"
    "d1 ''roles'' = Some rows1"
    "getById d1 ''roles'' (JNum 1) = Inl (RegistroNoEncontrado (JNum 1) ''roles'')"
    and b: "ids_numericos [rol_admin, rol_medico] \<and> ids_seguros [rol_admin, rol_medico]
            \<and> [''nombre'' \<mapsto> JStr ''enfermero''] ''id'' = None
         \<longrightarrow> (\<exists>r d2. create d1 ''roles'' [''nombre'' \<mapsto> JStr ''enfermero''] = Inr (r, d2)
                 \<and> js_get r ''id'' = JNum (spec_next_id rows1)
                 \<and> js_get rol_admin ''id'' = JNum (id_int rol_admin)
                 \<and> ((\<exists>x\<in>set [rol_admin, rol_medico]. id_int rol_admin < id_int x)
                      \<longrightarrow> id_int rol_admin < spec_next_id rows1))"
    by blast
  from mp [OF b h4] obtain r d2 where c:
    "create d1 ''roles'' [''nombre'' \<mapsto> JStr ''enfermero''] = Inr (r, d2)"
    "js_get r ''id'' = JNum (spec_next_id rows1)"
    and e: "(\<exists>x\<in>set [rol_admin, rol_medico]. id_int rol_admin < id_int x)
              \<longrightarrow> id_int rol_admin < spec_next_id rows1"
    by blast
  from mp [OF e h5] i1 have "1 < spec_next_id rows1" by simp
  with a c h1 h3 i1 show ?thesis by blast
qed

text \<open>
  Claim C5 as stated fails when the record deleted held the greatest id. The roles have
  ids 1 and 2; the role with id 2 is deleted, and the \<open>create\<close> that follows gives id 2
  again.
\<close>

theorem delete_then_create_counterexample:
  "delete db_roles ''roles'' (JNum 2) = Inr (rol_medico, db_roles(''roles'' \<mapsto> [rol_admin]))
   \<and> js_get rol_medico ''id'' = JNum 2
   \<and> create (db_roles(''roles'' \<mapsto> [rol_admin])) ''roles'' [''nombre'' \<mapsto> JStr ''enfermero'']
       = Inr ([''id'' \<mapsto> JNum 2, ''nombre'' \<mapsto> JStr ''enfermero''],
              db_roles(''roles'' \<mapsto> [rol_admin, [''id'' \<mapsto> JNum 2, ''nombre'' \<mapsto> JStr ''enfermero'']]))"
  by (simp add: delete_def create_def mismo_id_def db_roles_def maxId_def js_get_def rol_admin_def
        rol_medico_def Let_def)

section \<open>The example clinic, evaluated\<close>

lemma ej_tablas:
  "db_clinica ''roles'' = Some [rol_admin, rol_medico]"
  "db_clinica ''usuarios'' = Some [usuario_admin, usuario_ana]"
  "db_clinica ''perfiles'' = Some [perfil_1, perfil_2]"
  "db_clinica ''empleados'' = Some [empleado_1, empleado_2]"
  "db_clinica ''pacientes'' = Some [paciente_1]"
  "db_clinica ''tareas'' = Some [tarea_1, tarea_2]"
  by (simp_all add: db_clinica_def)

lemma ej_usuarios:
  "getUsuarioByUsername db_clinica (JStr ''admin'') = Inr usuario_admin"
  "getUsuarioByUsername db_clinica (JStr ''ana'') = Inr usuario_ana"
  "getUsuarioByUsername db_clinica (JStr ''nadie'') = Inl (UsuarioNoEncontrado (JStr ''nadie''))"
  by (simp_all add: getUsuarioByUsername_def ej_tablas js_get_def usuario_admin_def usuario_ana_def)

lemma ej_ids:
  "js_get usuario_admin ''id'' = JNum 1" "js_get usuario_ana ''id'' = JNum 2"
  "js_get usuario_admin ''rolId'' = JNum 1" "js_get usuario_ana ''rolId'' = JNum 2"
  "js_get usuario_admin ''perfilId'' = JNum 1" "js_get usuario_ana ''perfilId'' = JNum 2"
  "js_get usuario_admin ''password'' = JStr ''bcrypt:admin123''"
  "js_get usuario_ana ''password'' = JStr ''bcrypt:clave''"
  "js_get rol_admin ''nombre'' = JStr ''admin''" "js_get rol_medico ''nombre'' = JStr ''medico''"
  by (simp_all add: js_get_def usuario_admin_def usuario_ana_def rol_admin_def rol_medico_def)

lemma ej_getById:
  "getUsuarioById db_clinica (JNum 1) = Inr usuario_admin"
  "getUsuarioById db_clinica (JNum 2) = Inr usuario_ana"
  "getRoleById db_clinica (JNum 1) = Inr rol_admin"
  "getRoleById db_clinica (JNum 2) = Inr rol_medico"
  "getPerfilById db_clinica (JNum 1) = Inr perfil_1"
  "getPerfilById db_clinica (JNum 2) = Inr perfil_2"
  "getEmpleadoById db_clinica (JNum 1) = Inr empleado_1"
  "getEmpleadoById db_clinica (JNum 2) = Inr empleado_2"
  "getPacienteById db_clinica (JNum 1) = Inr paciente_1"
  by (simp_all add: getUsuarioById_def getRoleById_def getPerfilById_def getEmpleadoById_def
        getPacienteById_def getById_def ej_tablas mismo_id_def js_get_def usuario_admin_def
        usuario_ana_def rol_admin_def rol_medico_def perfil_1_def perfil_2_def empleado_1_def
        empleado_2_def paciente_1_def)

lemma ej_detalles:
  "detallesPerfil db_clinica perfil_1 = Inr [''empleado'' \<mapsto> JObj empleado_1]"
  "detallesPerfil db_clinica perfil_2 = Inr [''empleado'' \<mapsto> JObj empleado_2]"
proof -
  have "js_get perfil_1 ''tipo'' = JStr ''empleado''" "js_get perfil_1 ''empleadoId'' = JNum 1"
    "js_get perfil_2 ''tipo'' = JStr ''empleado''" "js_get perfil_2 ''empleadoId'' = JNum 2"
    by (simp_all add: js_get_def perfil_1_def perfil_2_def)
  then show "detallesPerfil db_clinica perfil_1 = Inr [''empleado'' \<mapsto> JObj empleado_1]"
    "detallesPerfil db_clinica perfil_2 = Inr [''empleado'' \<mapsto> JObj empleado_2]"
    by (simp_all add: detallesPerfil_def ej_getById)
qed

lemma ej_completos:
  "getUsuarioCompleto db_clinica (JNum 1)
     = Inr (usuario_admin(''rol'' \<mapsto> JObj rol_admin,
                          ''perfil'' \<mapsto> JObj (perfil_1 ++ [''empleado'' \<mapsto> JObj empleado_1])))"
  "getUsuarioCompleto db_clinica (JNum 2)
     = Inr (usuario_ana(''rol'' \<mapsto> JObj rol_medico,
                        ''perfil'' \<mapsto> JObj (perfil_2 ++ [''empleado'' \<mapsto> JObj empleado_2])))"
  by (simp_all add: getUsuarioCompleto_def ej_getById ej_ids ej_detalles)

section \<open>Passwords of users\<close>

text \<open>
  Claim C7, as the code has it. \<open>createUsuario\<close>, given its four required fields, a
  password that \<open>bcrypt.hash\<close> accepts and a users table with integer ids, stores and
  returns a record whose \<open>password\<close> is the string that \<open>bcrypt.hash(password, 10)\<close> gave.
  \<open>updateUsuario\<close> with a truthy \<open>password\<close> that \<open>bcrypt.hash\<close> accepts, on an id that
  \<open>getById\<close> finds, stores and returns a record whose \<open>password\<close> is the string that
  \<open>bcrypt.hash\<close> gave for it.
\<close>

theorem password_is_hashed:
  "(truthy (js_get userData ''usuario'') \<and> truthy (js_get userData ''password'')
      \<and> truthy (js_get userData ''rolId'') \<and> truthy (js_get userData ''perfilId'')
      \<and> bcrypt_hash L (js_get userData ''password'') 10 = Some h
      \<and> d ''usuarios'' = Some rows \<and> ids_numericos rows
    \<longrightarrow> (\<exists>r d'. createUsuario L d userData = Inr (r, d')
           \<and> js_get r ''password'' = JStr h
           \<and> d' ''usuarios'' = Some (rows @ [r])))
   \<and> (truthy (js_get upd ''password'')
      \<and> bcrypt_hash L (js_get upd ''password'') 10 = Some h2
      \<and> getById d2 ''usuarios'' i = Inr old
    \<longrightarrow> (\<exists>r d'. updateUsuario L d2 i upd = Inr (r, d')
           \<and> js_get r ''password'' = JStr h2
           \<and> getById d' ''usuarios'' i = Inr r))"
proof (intro conjI impI)
  assume a: "truthy (js_get userData ''usuario'') \<and> truthy (js_get userData ''password'')
      \<and> truthy (js_get userData ''rolId'') \<and> truthy (js_get userData ''perfilId'')
      \<and> bcrypt_hash L (js_get userData ''password'') 10 = Some h
      \<and> d ''usuarios'' = Some rows \<and> ids_numericos rows"
  define usuarioData where "usuarioData =
     [''usuario'' \<mapsto> js_get userData ''usuario'', ''password'' \<mapsto> JStr h,
      ''rolId'' \<mapsto> js_get userData ''rolId'', ''perfilId'' \<mapsto> js_get userData ''perfilId'']"
  define campos where "campos =
     (if truthy (js_get userData ''tipoPerfilId'')
      then usuarioData(''tipoPerfilId'' \<mapsto> js_get userData ''tipoPerfilId'') else usuarioData)"
  have cu: "createUsuario L d userData = create d ''usuarios'' campos"
    using a by (simp add: createUsuario_def Let_def campos_def usuarioData_def)
  have noid: "campos ''id'' = None" and pw: "campos ''password'' = Some (JStr h)"
    by (simp_all add: campos_def usuarioData_def)
  define r where "r = campos(''id'' \<mapsto> plus_one (JNum (spec_next_id rows - 1)))"
  from a have "d ''usuarios'' = Some rows" "ids_numericos rows" by simp_all
  from create_sin_id_general [where d = d and t = "''usuarios''" and campos = campos, OF this noid]
  have "create d ''usuarios'' campos = Inr (r, d(''usuarios'' \<mapsto> rows @ [r]))"
    by (simp add: r_def)
  moreover have "js_get r ''password'' = JStr h"
    using pw by (simp add: r_def js_get_def)
  ultimately show "\<exists>r d'. createUsuario L d userData = Inr (r, d')
           \<and> js_get r ''password'' = JStr h \<and> d' ''usuarios'' = Some (rows @ [r])"
    using cu by (intro exI [of _ r] exI [of _ "d(''usuarios'' \<mapsto> rows @ [r])"]) simp
next
  assume a: "truthy (js_get upd ''password'')
      \<and> bcrypt_hash L (js_get upd ''password'') 10 = Some h2
      \<and> getById d2 ''usuarios'' i = Inr old"
  define upd' where "upd' = upd(''password'' \<mapsto> JStr h2)"
  have uu: "updateUsuario L d2 i upd = update d2 ''usuarios'' i upd'"
    using a by (simp add: updateUsuario_def upd'_def)
  from a have "getById d2 ''usuarios'' i = Inr old" by simp
  from update_existing [OF this, of upd']
  obtain d' where "update d2 ''usuarios'' i upd' = Inr ((old ++ upd')(''id'' := old ''id''), d')"
    "getById d' ''usuarios'' i = Inr ((old ++ upd')(''id'' := old ''id''))"
    by blast
  moreover have "js_get ((old ++ upd')(''id'' := old ''id'')) ''password'' = JStr h2"
    by (simp add: upd'_def js_get_def)
  ultimately show "\<exists>r d'. updateUsuario L d2 i upd = Inr (r, d')
           \<and> js_get r ''password'' = JStr h2 \<and> getById d' ''usuarios'' i = Inr r"
    using uu by (intro exI [of _ "(old ++ upd')(''id'' := old ''id'')"] exI [of _ d']) simp
qed

text \<open>
  In the example clinic the user \<open>luis\<close> is created with the password \<open>secreto1\<close>, and
  the password of \<open>ana\<close> is changed to \<open>nueva\<close>, both through the functions for users.
\<close>

theorem password_is_hashed_witness:
  "(\<exists>r d'. createUsuario libs_ejemplo db_clinica usuario_nuevo = Inr (r, d')
       \<and> js_get r ''password'' = JStr ''bcrypt:secreto1''
       \<and> d' ''usuarios'' = Some ([usuario_admin, usuario_ana] @ [r]))
   \<and> (\<exists>r d'. updateUsuario libs_ejemplo db_clinica (JNum 2) [''password'' \<mapsto> JStr ''nueva'']
                = Inr (r, d')
       \<and> js_get r ''password'' = JStr ''bcrypt:nueva''
       \<and> getById d' ''usuarios'' (JNum 2) = Inr r)"
proof -
  have h1: "truthy (js_get usuario_nuevo ''usuario'') \<and> truthy (js_get usuario_nuevo ''password'')
      \<and> truthy (js_get usuario_nuevo ''rolId'') \<and> truthy (js_get usuario_nuevo ''perfilId'')
      \<and> bcrypt_hash libs_ejemplo (js_get usuario_nuevo ''password'') 10 = Some ''bcrypt:secreto1''
      \<and> db_clinica ''usuarios'' = Some [usuario_admin, usuario_ana]
      \<and> ids_numericos [usuario_admin, usuario_ana]"
    by (simp add: js_get_def usuario_nuevo_def libs_ejemplo_def ej_tablas ids_numericos_def
          usuario_admin_def usuario_ana_def)
  have h2: "truthy (js_get [''password'' \<mapsto> JStr ''nueva''] ''password'')
      \<and> bcrypt_hash libs_ejemplo (js_get [''password'' \<mapsto> JStr ''nueva''] ''password'') 10
          = Some ''bcrypt:nueva''
      \<and> getById db_clinica ''usuarios'' (JNum 2) = Inr usuario_ana"
    using ej_getById(2) by (simp add: js_get_def libs_ejemplo_def getUsuarioById_def)
  note inst = password_is_hashed [where L = libs_ejemplo and userData = usuario_nuevo
      and h = "''bcrypt:secreto1''" and d = db_clinica and rows = "[usuario_admin, usuario_ana]"
      and upd = "[''password'' \<mapsto> JStr ''nueva'']" and ?h2.0 = "''bcrypt:nueva''"
      and ?d2.0 = db_clinica and i = "JNum 2" and old = usuario_ana]
  have "\<exists>r d'. createUsuario libs_ejemplo db_clinica usuario_nuevo = Inr (r, d')
       \<and> js_get r ''password'' = JStr ''bcrypt:secreto1''
       \<and> d' ''usuarios'' = Some ([usuario_admin, usuario_ana] @ [r])"
    by (rule mp [OF inst [THEN conjunct1] h1])
  moreover have "\<exists>r d'. updateUsuario libs_ejemplo db_clinica (JNum 2) [''password'' \<mapsto> JStr ''nueva'']
                = Inr (r, d')
       \<and> js_get r ''password'' = JStr ''bcrypt:nueva''
       \<and> getById d' ''usuarios'' (JNum 2) = Inr r"
    by (rule mp [OF inst [THEN conjunct2] h2])
  ultimately show ?thesis by (rule conjI)
qed

text \<open>
  Claim C7 as stated fails for the generic \<open>update\<close>, which the store offers for every
  table: on the users table it stores and returns the password as it is given. The
  password of \<open>ana\<close> becomes \<open>nueva\<close>, in the record returned and in the record that
  \<open>getById\<close> then finds.
\<close>

theorem password_counterexample:
  "\<not> isl (update db_clinica ''usuarios'' (JNum 2) [''password'' \<mapsto> JStr ''nueva''])
   \<and> js_get (fst (projr (update db_clinica ''usuarios'' (JNum 2) [''password'' \<mapsto> JStr ''nueva''])))
        ''password'' = JStr ''nueva''
   \<and> js_get (projr (getById
        (snd (projr (update db_clinica ''usuarios'' (JNum 2) [''password'' \<mapsto> JStr ''nueva''])))
        ''usuarios'' (JNum 2))) ''password'' = JStr ''nueva''"
proof -
  have "getById db_clinica ''usuarios'' (JNum 2) = Inr usuario_ana"
    using ej_getById(2) by (simp add: getUsuarioById_def)
  from update_existing [OF this, of "[''password'' \<mapsto> JStr ''nueva'']"]
  obtain d' where
    "update db_clinica ''usuarios'' (JNum 2) [''password'' \<mapsto> JStr ''nueva'']
       = Inr ((usuario_ana ++ [''password'' \<mapsto> JStr ''nueva''])(''id'' := usuario_ana ''id''), d')"
    "getById d' ''usuarios'' (JNum 2)
       = Inr ((usuario_ana ++ [''password'' \<mapsto> JStr ''nueva''])(''id'' := usuario_ana ''id''))"
    by blast
  then show ?thesis by (simp add: js_get_def)
qed

section \<open>Joins and dangling references\<close>

lemma bucle_tareas_error:
  "bucle_tareas d ts acc = Inl e \<Longrightarrow> es_no_encontrado e"
proof (induction ts arbitrary: acc)
  case Nil
  then show ?case by simp
next
  case (Cons t ts)
  then show ?case
    by (auto simp: getEmpleadoById_def getPacienteById_def map_sum_def
             split: sum.splits if_splits dest: getById_error)
qed

text \<open>One task whose patient lookup throws is enough for the loop to end in an error.\<close>

lemma bucle_tareas_dangling:
  assumes "tarea \<in> set ts" and "truthy (js_get tarea ''pacienteId'')"
    and "getPacienteById d (js_get tarea ''pacienteId'') = Inl e"
  shows "isl (bucle_tareas d ts acc)"
  using assms(1)
proof (induction ts arbitrary: acc)
  case Nil
  then show ?case by simp
next
  case (Cons t ts)
  show ?case
  proof (cases "tarea = t")
    case True
    with assms(2,3) show ?thesis
      by (simp split: sum.splits)
  next
    case False
    with Cons.prems have "tarea \<in> set ts" by simp
    then have "isl (bucle_tareas d ts acc')" for acc' by (rule Cons.IH)
    then show ?thesis
      by (simp split: sum.splits)
  qed
qed

lemma tarea_completa_con_paciente:
  "getEmpleadoById d (js_get t ''empleadoId'') = Inr emp \<Longrightarrow> truthy (js_get t ''pacienteId'') \<Longrightarrow>
   getPacienteById d (js_get t ''pacienteId'') = Inr pac \<Longrightarrow>
   t(''empleado'' \<mapsto> JObj emp, ''paciente'' \<mapsto> JObj pac) = tarea_completa d t"
  by (simp add: tarea_completa_def paciente_de_def)

lemma tarea_completa_sin_paciente:
  "getEmpleadoById d (js_get t ''empleadoId'') = Inr emp \<Longrightarrow> \<not> truthy (js_get t ''pacienteId'') \<Longrightarrow>
   t(''empleado'' \<mapsto> JObj emp, ''paciente'' \<mapsto> JNull) = tarea_completa d t"
  by (simp add: tarea_completa_def paciente_de_def)

lemma bucle_tareas_ok:
  assumes "\<forall>t\<in>set ts. \<not> isl (getEmpleadoById d (js_get t ''empleadoId''))
             \<and> (truthy (js_get t ''pacienteId'') \<longrightarrow> \<not> isl (getPacienteById d (js_get t ''pacienteId'')))"
  shows "bucle_tareas d ts acc = Inr (acc @ map (tarea_completa d) ts)"
  using assms
proof (induction ts arbitrary: acc)
  case Nil
  then show ?case by simp
next
  case (Cons t ts)
  from Cons.prems obtain emp where emp: "getEmpleadoById d (js_get t ''empleadoId'') = Inr emp"
    by (cases "getEmpleadoById d (js_get t ''empleadoId'')") auto
  have rest: "bucle_tareas d ts acc' = Inr (acc' @ map (tarea_completa d) ts)" for acc'
    using Cons.prems by (intro Cons.IH) simp
  show ?case
  proof (cases "truthy (js_get t ''pacienteId'')")
    case True
    with Cons.prems obtain pac where pac: "getPacienteById d (js_get t ''pacienteId'') = Inr pac"
      by (cases "getPacienteById d (js_get t ''pacienteId'')") auto
    with True emp rest show ?thesis
      by (simp add: tarea_completa_con_paciente [OF emp True pac])
  next
    case False
    with emp rest show ?thesis
      by (simp add: tarea_completa_sin_paciente [OF emp False])
  qed
qed

text \<open>
  Claim C9, as the code has it. (1) If some task carries a truthy patient id whose lookup
  fails, \<open>getTareasCompletas\<close> fails as a whole, with a not-found error. (2) If the
  employee of every task is found, and the patient of every task that carries a truthy
  patient id, \<open>getTareasCompletas\<close> succeeds and returns every task with its employee
  and with its patient, the patient being \<open>null\<close> for a task without a patient id.
  (3) If the role or the profile of a user is not found, \<open>getUsuarioCompleto\<close> fails with
  a not-found error.
\<close>

theorem joins_and_dangling_references:
  "(d1 ''tareas'' = Some ts1 \<and> tarea \<in> set ts1 \<and> truthy (js_get tarea ''pacienteId'')
      \<and> isl (getPacienteById d1 (js_get tarea ''pacienteId''))
    \<longrightarrow> (\<exists>e. getTareasCompletas d1 = Inl e \<and> es_no_encontrado e))
   \<and> (d2 ''tareas'' = Some ts2
        \<and> (\<forall>t\<in>set ts2. \<not> isl (getEmpleadoById d2 (js_get t ''empleadoId''))
              \<and> (truthy (js_get t ''pacienteId'')
                   \<longrightarrow> \<not> isl (getPacienteById d2 (js_get t ''pacienteId''))))
    \<longrightarrow> getTareasCompletas d2 = Inr (map (tarea_completa d2) ts2))
   \<and> (getUsuarioById d3 i = Inr u
        \<and> (isl (getRoleById d3 (js_get u ''rolId'')) \<or> isl (getPerfilById d3 (js_get u ''perfilId'')))
    \<longrightarrow> (\<exists>e. getUsuarioCompleto d3 i = Inl e \<and> es_no_encontrado e))"
proof (intro conjI impI)
  assume a: "d1 ''tareas'' = Some ts1 \<and> tarea \<in> set ts1 \<and> truthy (js_get tarea ''pacienteId'')
      \<and> isl (getPacienteById d1 (js_get tarea ''pacienteId''))"
  then obtain e where "getPacienteById d1 (js_get tarea ''pacienteId'') = Inl e"
    by (cases "getPacienteById d1 (js_get tarea ''pacienteId'')") auto
  with a have "isl (bucle_tareas d1 ts1 [])"
    by (intro bucle_tareas_dangling [where tarea = tarea and e = e]) simp_all
  then obtain e' where e': "bucle_tareas d1 ts1 [] = Inl e'"
    by (cases "bucle_tareas d1 ts1 []") auto
  then have "es_no_encontrado e'" by (rule bucle_tareas_error)
  with e' a show "\<exists>e. getTareasCompletas d1 = Inl e \<and> es_no_encontrado e"
    by (simp add: getTareasCompletas_def getAllTareas_def getAll_def)
next
  assume a: "d2 ''tareas'' = Some ts2
        \<and> (\<forall>t\<in>set ts2. \<not> isl (getEmpleadoById d2 (js_get t ''empleadoId''))
              \<and> (truthy (js_get t ''pacienteId'')
                   \<longrightarrow> \<not> isl (getPacienteById d2 (js_get t ''pacienteId''))))"
  then have "bucle_tareas d2 ts2 [] = Inr ([] @ map (tarea_completa d2) ts2)"
    by (intro bucle_tareas_ok) simp
  with a show "getTareasCompletas d2 = Inr (map (tarea_completa d2) ts2)"
    by (simp add: getTareasCompletas_def getAllTareas_def getAll_def)
next
  assume a: "getUsuarioById d3 i = Inr u
        \<and> (isl (getRoleById d3 (js_get u ''rolId'')) \<or> isl (getPerfilById d3 (js_get u ''perfilId'')))"
  then have "isl (getUsuarioCompleto d3 i)"
    by (auto simp: getUsuarioCompleto_def split: sum.splits)
  then obtain e where e: "getUsuarioCompleto d3 i = Inl e"
    by (cases "getUsuarioCompleto d3 i") auto
  with a have "es_no_encontrado e"
    by (auto simp: getUsuarioCompleto_def getRoleById_def getPerfilById_def split: sum.splits
             dest: getById_error)
  with e show "\<exists>e. getUsuarioCompleto d3 i = Inl e \<and> es_no_encontrado e" by simp
qed

lemma js_get_upd: "js_get (r(k \<mapsto> v)) k' = (if k' = k then v else js_get r k')"
  by (simp add: js_get_def)

lemma ej_colgada:
  "db_tarea_colgada ''tareas'' = Some [tarea_2, tarea_colgada]"
  "getEmpleadoById db_tarea_colgada i = getEmpleadoById db_clinica i"
  "getPacienteById db_tarea_colgada i = getPacienteById db_clinica i"
  "js_get tarea_colgada ''pacienteId'' = JNum 9"
  "js_get tarea_colgada ''empleadoId'' = JNum 2"
  "getPacienteById db_clinica (JNum 9) = Inl (RegistroNoEncontrado (JNum 9) ''pacientes'')"
  by (simp_all add: db_tarea_colgada_def getEmpleadoById_def getPacienteById_def getById_def
        ej_tablas js_get_def tarea_colgada_def mismo_id_def paciente_1_def)

lemma ej_tareas:
  "js_get tarea_1 ''pacienteId'' = JNum 1" "js_get tarea_1 ''empleadoId'' = JNum 2"
  "js_get tarea_2 ''pacienteId'' = JNull" "js_get tarea_2 ''empleadoId'' = JNum 1"
  by (simp_all add: js_get_def tarea_1_def tarea_2_def)

text \<open>
  In the example clinic: with a task that names patient 9, who does not exist, the tasks
  cannot be composed; with the tasks 1 and 2 they are, and task 2, which has no patient,
  gets \<open>null\<close>; without the role of \<open>ana\<close>, her user cannot be composed.
\<close>

theorem joins_and_dangling_references_witness:
  "(\<exists>e. getTareasCompletas db_tarea_colgada = Inl e \<and> es_no_encontrado e)
   \<and> getTareasCompletas db_clinica = Inr (map (tarea_completa db_clinica) [tarea_1, tarea_2])
   \<and> js_get (tarea_completa db_clinica tarea_2) ''paciente'' = JNull
   \<and> js_get (tarea_completa db_clinica tarea_1) ''paciente'' = JObj paciente_1
   \<and> (\<exists>e. getUsuarioCompleto db_sin_rol (JNum 2) = Inl e \<and> es_no_encontrado e)"
proof -
  have h1: "db_tarea_colgada ''tareas'' = Some [tarea_2, tarea_colgada]
      \<and> tarea_colgada \<in> set [tarea_2, tarea_colgada]
      \<and> truthy (js_get tarea_colgada ''pacienteId'')
      \<and> isl (getPacienteById db_tarea_colgada (js_get tarea_colgada ''pacienteId''))"
    by (simp add: ej_colgada)
  have h2: "db_clinica ''tareas'' = Some [tarea_1, tarea_2]
        \<and> (\<forall>t\<in>set [tarea_1, tarea_2]. \<not> isl (getEmpleadoById db_clinica (js_get t ''empleadoId''))
              \<and> (truthy (js_get t ''pacienteId'')
                   \<longrightarrow> \<not> isl (getPacienteById db_clinica (js_get t ''pacienteId''))))"
    by (simp add: ej_tablas ej_tareas ej_getById)
  have "getUsuarioById db_sin_rol (JNum 2) = Inr usuario_ana"
    using ej_getById(2) by (simp add: db_sin_rol_def getUsuarioById_def getById_def)
  moreover have "isl (getRoleById db_sin_rol (js_get usuario_ana ''rolId''))"
    by (simp add: db_sin_rol_def getRoleById_def getById_def mismo_id_def js_get_def
          rol_admin_def usuario_ana_def)
  ultimately have h3: "getUsuarioById db_sin_rol (JNum 2) = Inr usuario_ana
        \<and> (isl (getRoleById db_sin_rol (js_get usuario_ana ''rolId''))
            \<or> isl (getPerfilById db_sin_rol (js_get usuario_ana ''perfilId'')))"
    by simp
  note inst = joins_and_dangling_references [where ?d1.0 = db_tarea_colgada
      and ?ts1.0 = "[tarea_2, tarea_colgada]" and tarea = tarea_colgada
      and ?d2.0 = db_clinica and ?ts2.0 = "[tarea_1, tarea_2]"
      and ?d3.0 = db_sin_rol and i = "JNum 2" and u = usuario_ana]
  have a: "\<exists>e. getTareasCompletas db_tarea_colgada = Inl e \<and> es_no_encontrado e"
    by (rule mp [OF inst [THEN conjunct1] h1])
  have b: "getTareasCompletas db_clinica = Inr (map (tarea_completa db_clinica) [tarea_1, tarea_2])"
    by (rule mp [OF inst [THEN conjunct2, THEN conjunct1] h2])
  have c: "\<exists>e. getUsuarioCompleto db_sin_rol (JNum 2) = Inl e \<and> es_no_encontrado e"
    by (rule mp [OF inst [THEN conjunct2, THEN conjunct2] h3])
  have e: "js_get (tarea_completa db_clinica tarea_2) ''paciente'' = JNull"
    "js_get (tarea_completa db_clinica tarea_1) ''paciente'' = JObj paciente_1"
    by (simp_all add: tarea_completa_def paciente_de_def js_get_upd ej_tareas ej_getById)
  from a b e c show ?thesis by (intro conjI)
qed

text \<open>
  Claim C9 as stated fails for a patient id that references no patient: the code looks
  the patient up whenever the task carries a truthy patient id, and the lookup throws.
  Task 3 of the example names patient 9; \<open>getTareasCompletas\<close> fails with the error of
  the lookup instead of returning the task without its patient.
\<close>

theorem getTareasCompletas_counterexample:
  "getTareasCompletas db_tarea_colgada = Inl (RegistroNoEncontrado (JNum 9) ''pacientes'')"
  by (simp add: getTareasCompletas_def getAllTareas_def getAll_def ej_colgada ej_tareas ej_getById)

section \<open>Authentication\<close>

text \<open>
  What a composed user holds: the user record found under the id, with the role record
  that its \<open>rolId\<close> resolves to; its \<open>id\<close> is an integer.
\<close>

lemma getUsuarioCompleto_Inr:
  assumes "getUsuarioCompleto d i = Inr c"
  shows "\<exists>u rol n. getUsuarioById d i = Inr u \<and> getRoleById d (js_get u ''rolId'') = Inr rol
           \<and> c ''rol'' = Some (JObj rol) \<and> c ''id'' = Some (JNum n) \<and> c ''id'' = u ''id''
           \<and> c ''usuario'' = u ''usuario''"
proof -
  from assms obtain u rol where u: "getUsuarioById d i = Inr u"
    and rol: "getRoleById d (js_get u ''rolId'') = Inr rol"
    and c: "c ''rol'' = Some (JObj rol)" "c ''id'' = u ''id''" "c ''usuario'' = u ''usuario''"
    by (auto simp: getUsuarioCompleto_def split: sum.splits)
  from u obtain rows where "find (mismo_id i) rows = Some u"
    by (auto simp: getUsuarioById_def dest: getById_Inr)
  then have "mismo_id i u"
    by (auto dest!: find_Some_findIndex dest: findIndex_Some)
  then obtain n where "u ''id'' = Some (JNum n)"
    by (auto dest: mismo_id_num)
  with u rol c show ?thesis by auto
qed

lemma crearSesion_ok:
  assumes "c ''id'' = Some (JNum n)"
    and "jwt_sign L (payload_de now c) (jwtSecret cfg) (jwtExpiresIn cfg) ''backend-ifts''
           (js_get c ''id'') = Some tok"
  shows "\<exists>s cache'. crearSesion L cfg now cache c = Inr (s, cache')
           \<and> token s = tok
           \<and> js_get (c_usuario s) ''rol'' = opt_member (js_get c ''rol'') ''nombre''
           \<and> map_option s_rol (cache' tok) = Some (opt_member (js_get c ''rol'') ''nombre'')"
  using assms by (simp add: crearSesion_def Let_def js_get_def)

lemma esAdministrador_rol:
  "c ''rol'' = Some (JObj rol) \<Longrightarrow>
   truthy (esAdministrador c) \<longleftrightarrow> js_get rol ''nombre'' = JStr ''admin''"
  by (cases "js_get rol ''nombre''") (simp_all add: esAdministrador_def js_and_def js_get_def)

text \<open>
  Claim C2. Let the user name be found, let \<open>bcrypt.compare\<close> accept the password against
  the stored hash, let the complete user be composed, and let \<open>jwt.sign\<close> issue a token.
  Then the complete user carries the role record that the role id of the user with that
  id resolves to, and: if the name of that role is not \<open>admin\<close>, \<open>autenticarAdmin\<close> fails
  with \<open>INSUFFICIENT_PERMISSIONS\<close>; if it is \<open>admin\<close>, \<open>autenticarAdmin\<close> succeeds with that
  user and that token, and the role in the session returned, in the payload signed and
  in the session entry stored under the token is \<open>admin\<close>.
\<close>

theorem autenticarAdmin_rol:
  assumes "getUsuarioByUsername d usuario = Inr encontrado"
    and "bcrypt_compare L password (js_get encontrado ''password'') = Some True"
    and "getUsuarioCompleto d (js_get encontrado ''id'') = Inr completo"
    and "jwt_sign L (payload_de now completo) (jwtSecret cfg) (jwtExpiresIn cfg) ''backend-ifts''
           (js_get completo ''id'') = Some tok"
  shows "\<exists>u rol. getUsuarioById d (js_get encontrado ''id'') = Inr u
           \<and> getRoleById d (js_get u ''rolId'') = Inr rol
           \<and> js_get completo ''rol'' = JObj rol
           \<and> (js_get rol ''nombre'' \<noteq> JStr ''admin''
                \<longrightarrow> fst (autenticarAdmin L cfg now d cache usuario password)
                      = Fallo INSUFFICIENT_PERMISSIONS)
           \<and> (js_get rol ''nombre'' = JStr ''admin''
                \<longrightarrow> (\<exists>dat. fst (autenticarAdmin L cfg now d cache usuario password) = Exito dat
                       \<and> d_usuario dat = completo
                       \<and> token (d_sesion dat) = tok
                       \<and> js_get (c_usuario (d_sesion dat)) ''rol'' = JStr ''admin''
                       \<and> js_get (payload_de now completo) ''rol'' = JStr ''admin''
                       \<and> map_option s_rol (snd (autenticarAdmin L cfg now d cache usuario password) tok)
                           = Some (JStr ''admin'')))"
proof -
  from getUsuarioCompleto_Inr [OF assms(3)]
  obtain u rol n where u: "getUsuarioById d (js_get encontrado ''id'') = Inr u"
    and rol: "getRoleById d (js_get u ''rolId'') = Inr rol"
    and c: "completo ''rol'' = Some (JObj rol)" "completo ''id'' = Some (JNum n)"
    by blast
  from crearSesion_ok [where c = completo and cache = cache, OF c(2) assms(4)]
  obtain s cache' where s: "crearSesion L cfg now cache completo = Inr (s, cache')"
    and tk: "token s = tok"
    and sr: "js_get (c_usuario s) ''rol'' = opt_member (js_get completo ''rol'') ''nombre''"
    and cr: "map_option s_rol (cache' tok) = Some (opt_member (js_get completo ''rol'') ''nombre'')"
    by blast
  define dat where "dat = \<lparr> d_usuario = completo, d_sesion = s,
      d_permisos = js_or (opt_member (js_get completo ''rol'') ''permisos'') (JArr []) \<rparr>"
  have au: "autenticarUsuario L cfg now d cache usuario password = (Exito dat, cache')"
    using assms(1,2,3) s by (simp add: autenticarUsuario_def dat_def)
  have om: "opt_member (js_get completo ''rol'') ''nombre'' = js_get rol ''nombre''"
    using c(1) by (simp add: opt_member_def js_get_def)
  have adm: "truthy (esAdministrador completo) \<longleftrightarrow> js_get rol ''nombre'' = JStr ''admin''"
    by (rule esAdministrador_rol [where c = completo, OF c(1)])
  have no: "fst (autenticarAdmin L cfg now d cache usuario password) = Fallo INSUFFICIENT_PERMISSIONS"
    if "js_get rol ''nombre'' \<noteq> JStr ''admin''"
    using that au adm by (simp add: autenticarAdmin_def dat_def)
  have yes: "\<exists>dat. fst (autenticarAdmin L cfg now d cache usuario password) = Exito dat
                       \<and> d_usuario dat = completo
                       \<and> token (d_sesion dat) = tok
                       \<and> js_get (c_usuario (d_sesion dat)) ''rol'' = JStr ''admin''
                       \<and> js_get (payload_de now completo) ''rol'' = JStr ''admin''
                       \<and> map_option s_rol (snd (autenticarAdmin L cfg now d cache usuario password) tok)
                           = Some (JStr ''admin'')"
    if a: "js_get rol ''nombre'' = JStr ''admin''"
  proof -
    have r: "autenticarAdmin L cfg now d cache usuario password = (Exito dat, cache')"
      using a au adm by (simp add: autenticarAdmin_def dat_def)
    have "js_get (payload_de now completo) ''rol'' = JStr ''admin''"
      using om a by (simp add: payload_de_def js_get_def)
    with r tk sr cr om a show ?thesis
      by (intro exI [of _ dat]) (simp add: dat_def)
  qed
  have "js_get completo ''rol'' = JObj rol"
    using c(1) by (simp add: js_get_def)
  with u rol no yes show ?thesis by blast
qed

text \<open>
  In the example clinic \<open>ana\<close>, a \<open>medico\<close>, is refused with her right password, and
  \<open>admin\<close> is let in.
\<close>

theorem autenticarAdmin_rol_witness:
  "fst (autenticarAdmin libs_ejemplo cfg_ejemplo 1700000000000 db_clinica Map.empty
          (JStr ''ana'') (JStr ''clave'')) = Fallo INSUFFICIENT_PERMISSIONS
   \<and> (\<exists>dat. fst (autenticarAdmin libs_ejemplo cfg_ejemplo 1700000000000 db_clinica Map.empty
                    (JStr ''admin'') (JStr ''admin123'')) = Exito dat
          \<and> token (d_sesion dat) = ''token-1''
          \<and> js_get (c_usuario (d_sesion dat)) ''rol'' = JStr ''admin'')"
proof -
  have c1: "bcrypt_compare libs_ejemplo (JStr ''clave'') (js_get usuario_ana ''password'') = Some True"
    and c2: "bcrypt_compare libs_ejemplo (JStr ''admin123'') (js_get usuario_admin ''password'') = Some True"
    by (simp_all add: libs_ejemplo_def ej_ids)
  have s: "jwt_sign libs_ejemplo p (jwtSecret cfg_ejemplo) (jwtExpiresIn cfg_ejemplo) ''backend-ifts'' i
             = Some ''token-1''" for p i
    by (simp add: libs_ejemplo_def)
  have g1: "getUsuarioCompleto db_clinica (js_get usuario_ana ''id'')
     = Inr (usuario_ana(''rol'' \<mapsto> JObj rol_medico,
                        ''perfil'' \<mapsto> JObj (perfil_2 ++ [''empleado'' \<mapsto> JObj empleado_2])))"
    and g2: "getUsuarioCompleto db_clinica (js_get usuario_admin ''id'')
     = Inr (usuario_admin(''rol'' \<mapsto> JObj rol_admin,
                          ''perfil'' \<mapsto> JObj (perfil_1 ++ [''empleado'' \<mapsto> JObj empleado_1])))"
    by (simp_all add: ej_ids ej_completos)
  from autenticarAdmin_rol [where cache = Map.empty, OF ej_usuarios(2) c1 g1 s]
  obtain u rol where "getUsuarioById db_clinica (js_get usuario_ana ''id'') = Inr u"
    "getRoleById db_clinica (js_get u ''rolId'') = Inr rol"
    and no: "js_get rol ''nombre'' \<noteq> JStr ''admin''
         \<longrightarrow> fst (autenticarAdmin libs_ejemplo cfg_ejemplo 1700000000000 db_clinica Map.empty
                   (JStr ''ana'') (JStr ''clave'')) = Fallo INSUFFICIENT_PERMISSIONS"
    by blast
  then have "rol = rol_medico"
    by (simp add: ej_ids ej_getById)
  with no have a: "fst (autenticarAdmin libs_ejemplo cfg_ejemplo 1700000000000 db_clinica Map.empty
                   (JStr ''ana'') (JStr ''clave'')) = Fallo INSUFFICIENT_PERMISSIONS"
    by (simp add: ej_ids)
  from autenticarAdmin_rol [where cache = Map.empty, OF ej_usuarios(1) c2 g2 s]
  obtain u' rol' where "getUsuarioById db_clinica (js_get usuario_admin ''id'') = Inr u'"
    "getRoleById db_clinica (js_get u' ''rolId'') = Inr rol'"
    and yes: "js_get rol' ''nombre'' = JStr ''admin''
         \<longrightarrow> (\<exists>dat. fst (autenticarAdmin libs_ejemplo cfg_ejemplo 1700000000000 db_clinica Map.empty
                    (JStr ''admin'') (JStr ''admin123'')) = Exito dat
                \<and> token (d_sesion dat) = ''token-1''
                \<and> js_get (c_usuario (d_sesion dat)) ''rol'' = JStr ''admin'')"
    by blast
  then have "rol' = rol_admin"
    by (simp add: ej_ids ej_getById)
  with yes have "\<exists>dat. fst (autenticarAdmin libs_ejemplo cfg_ejemplo 1700000000000 db_clinica Map.empty
                    (JStr ''admin'') (JStr ''admin123'')) = Exito dat
                \<and> token (d_sesion dat) = ''token-1''
                \<and> js_get (c_usuario (d_sesion dat)) ''rol'' = JStr ''admin''"
    by (simp add: ej_ids)
  with a show ?thesis by (rule conjI)
qed

subsection \<open>An unknown user name\<close>

text \<open>
  \<open>getUsuarioByUsername\<close> throws when no user has the name, so the branch of
  \<open>autenticarUsuario\<close> that answers \<open>USER_NOT_FOUND\<close> is never taken: for no input at all
  is that the answer.
\<close>

lemma autenticarUsuario_never_USER_NOT_FOUND:
  "fst (autenticarUsuario L cfg now d cache usuario password) \<noteq> Fallo USER_NOT_FOUND"
  by (simp add: autenticarUsuario_def split: sum.splits option.splits prod.splits)

text \<open>
  Claim C8 says that a user name that matches no stored user is answered with the
  user-not-found outcome. In the example clinic no user is called \<open>nadie\<close>; whatever
  the libraries, the clock, the sessions and the password, \<open>autenticarUsuario\<close> answers
  \<open>INTERNAL_ERROR\<close>, the answer it gives to every exception.
\<close>

theorem autenticarUsuario_unknown_user:
  "autenticarUsuario L cfg now db_clinica cache (JStr ''nadie'') password
     = (Fallo INTERNAL_ERROR, cache)"
  by (simp add: autenticarUsuario_def ej_usuarios)

subsection \<open>Tokens and sessions\<close>

text \<open>
  Whatever \<open>jwt.verify\<close> throws, an expired token or a bad signature alike,
  \<open>validarToken\<close> answers \<open>null\<close>, and so does \<open>obtenerSesion\<close>, which leaves the cache
  as it was.
\<close>

lemma validarToken_uniform:
  "jwt_verify L tok (jwtSecret cfg) = Inl e \<Longrightarrow>
   validarToken L cfg tok = None \<and> obtenerSesion L cfg now cache tok = (None, cache)"
  by (simp add: validarToken_def obtenerSesion_def)

text \<open>
  Claim C6. Let \<open>jwt.verify\<close> accept the token and give its payload. If the cache has no
  entry for the token, \<open>obtenerSesion\<close> returns a session made from the payload (user id,
  user name, role, permissions, creation date from \<open>iat\<close>), active and last used now,
  and the cache holds that session under the token afterwards. If the cache has an
  active entry for the token, that entry is returned with its last activity set to now,
  and the cache holds the refreshed entry. In no case is the answer \<open>null\<close>.
\<close>

theorem obtenerSesion_valid_token:
  assumes "jwt_verify L sid (jwtSecret cfg) = Inr payload"
  shows "(cache sid = None
            \<longrightarrow> (\<exists>r. obtenerSesion L cfg now cache sid = (Some r, cache(sid \<mapsto> r))
                   \<and> s_id r = sid \<and> s_usuarioId r = js_get payload ''id''
                   \<and> s_usuario r = js_get payload ''usuario'' \<and> s_rol r = js_get payload ''rol''
                   \<and> s_permisos r = js_or (js_get payload ''permisos'') (JArr [])
                   \<and> s_fechaCreacion r = DateOfSeconds (js_get payload ''iat'')
                   \<and> s_ultimaActividad r = DateAt now \<and> s_activa r))
         \<and> (\<forall>s. cache sid = Some s \<and> s_activa s
            \<longrightarrow> obtenerSesion L cfg now cache sid
                  = (Some (s\<lparr>s_ultimaActividad := DateAt now\<rparr>),
                     cache(sid \<mapsto> s\<lparr>s_ultimaActividad := DateAt now\<rparr>)))
         \<and> fst (obtenerSesion L cfg now cache sid) \<noteq> None"
proof (intro conjI allI impI)
  assume "cache sid = None"
  with assms have "obtenerSesion L cfg now cache sid
      = (Some (sesionRecreada now sid payload), cache(sid \<mapsto> sesionRecreada now sid payload))"
    by (simp add: obtenerSesion_def validarToken_def)
  then show "\<exists>r. obtenerSesion L cfg now cache sid = (Some r, cache(sid \<mapsto> r))
                   \<and> s_id r = sid \<and> s_usuarioId r = js_get payload ''id''
                   \<and> s_usuario r = js_get payload ''usuario'' \<and> s_rol r = js_get payload ''rol''
                   \<and> s_permisos r = js_or (js_get payload ''permisos'') (JArr [])
                   \<and> s_fechaCreacion r = DateOfSeconds (js_get payload ''iat'')
                   \<and> s_ultimaActividad r = DateAt now \<and> s_activa r"
    by (intro exI [of _ "sesionRecreada now sid payload"]) (simp add: sesionRecreada_def)
next
  fix s
  assume "cache sid = Some s \<and> s_activa s"
  with assms show "obtenerSesion L cfg now cache sid
                  = (Some (s\<lparr>s_ultimaActividad := DateAt now\<rparr>),
                     cache(sid \<mapsto> s\<lparr>s_ultimaActividad := DateAt now\<rparr>))"
    by (simp add: obtenerSesion_def validarToken_def)
next
  from assms show "fst (obtenerSesion L cfg now cache sid) \<noteq> None"
    by (simp add: obtenerSesion_def validarToken_def split: option.splits)
qed

text \<open>
  The token of the example, looked up in an empty cache and in a cache that holds its
  session.
\<close>

theorem obtenerSesion_valid_token_witness:
  "jwt_verify libs_ejemplo ''token-1'' (jwtSecret cfg_ejemplo) = Inr payload_ejemplo
   \<and> (\<exists>r. obtenerSesion libs_ejemplo cfg_ejemplo 1700000500000 Map.empty ''token-1''
              = (Some r, [''token-1'' \<mapsto> r])
          \<and> s_usuarioId r = JNum 1 \<and> s_rol r = JStr ''admin'' \<and> s_activa r)
   \<and> obtenerSesion libs_ejemplo cfg_ejemplo 1700000500000 [''token-1'' \<mapsto> sesion_ejemplo] ''token-1''
        = (Some (sesion_ejemplo\<lparr>s_ultimaActividad := DateAt 1700000500000\<rparr>),
           [''token-1'' \<mapsto> sesion_ejemplo\<lparr>s_ultimaActividad := DateAt 1700000500000\<rparr>])"
proof -
  have v: "jwt_verify libs_ejemplo ''token-1'' (jwtSecret cfg_ejemplo) = Inr payload_ejemplo"
    by (simp add: libs_ejemplo_def)
  note inst1 = obtenerSesion_valid_token [OF v, where cache = Map.empty and now = 1700000500000]
  note inst2 = obtenerSesion_valid_token [OF v, where cache = "[''token-1'' \<mapsto> sesion_ejemplo]"
      and now = 1700000500000]
  from inst1 have "\<exists>r. obtenerSesion libs_ejemplo cfg_ejemplo 1700000500000 Map.empty ''token-1''
              = (Some r, [''token-1'' \<mapsto> r])
          \<and> s_usuarioId r = JNum 1 \<and> s_rol r = JStr ''admin'' \<and> s_activa r"
    by (auto simp: js_get_def payload_ejemplo_def)
  moreover have "[''token-1'' \<mapsto> sesion_ejemplo] ''token-1'' = Some sesion_ejemplo \<and> s_activa sesion_ejemplo"
    by (simp add: sesion_ejemplo_def)
  with inst2 have "obtenerSesion libs_ejemplo cfg_ejemplo 1700000500000 [''token-1'' \<mapsto> sesion_ejemplo] ''token-1''
        = (Some (sesion_ejemplo\<lparr>s_ultimaActividad := DateAt 1700000500000\<rparr>),
           [''token-1'' \<mapsto> sesion_ejemplo\<lparr>s_ultimaActividad := DateAt 1700000500000\<rparr>])"
    by simp
  ultimately show ?thesis using v by blast
qed

end
